theory Spec2Isabelle
  imports Main
begin

section \<open>Python values\<close>

text \<open>
  A Python \<open>str\<close> is a sequence of Unicode code points, and \<open>len\<close>, \<open>min_length\<close> and
  \<open>max_length\<close> count code points; so a string is a list of code points here, not a list
  of bytes. \<open>str\<close> turns an ASCII literal into such a list.
\<close>

type_synonym codepoint = nat
type_synonym pystr = "codepoint list"

definition str :: "string \<Rightarrow> pystr" where
  "str cs = map of_char cs"

text \<open>
  \<open>datetime.date\<close> and \<open>datetime.datetime\<close> objects are only stored by the models: year,
  month and day, and for a datetime also hour, minute, second and microsecond. A float
  is \<open>m * 2 ^ e\<close>, an infinity or a NaN; the models store it and never compute with it.
\<close>

datatype date = Date int int int

datatype datetime = Datetime date int int int int

datatype pyfloat = Float int int | PosInf | NegInf | NaN

text \<open>
  An instance of a model can itself be passed as a value, where a model has a field that
  is a model: \<open>AuthResponse\<close> has a \<open>User\<close>.
  \<^verbatim>\<open>
  class User(BaseModel):
      id: str
      email: EmailStr
      name: str
      created_at: datetime
      updated_at: datetime
  \<close>
  The field \<open>id\<close> is \<open>id'\<close> in a record; its key in a mapping is \<open>id\<close>.
\<close>

record User =
  id' :: pystr
  email :: pystr
  name :: pystr
  created_at :: datetime
  updated_at :: datetime

text \<open>
  The raw values that a caller passes to a model, by keyword or from a parsed JSON object.
  \<open>PDict\<close> is a mapping, given by its items (the keys of a Python \<open>dict\<close> are distinct).
\<close>

datatype pyval =
    PNone
  | PBool bool
  | PInt int
  | PFloat pyfloat
  | PStr pystr
  | PList "pyval list"
  | PDate date
  | PDatetime datetime
  | PDict "(string \<times> pyval) list"
  | PUser User

text \<open>
  A \<open>ValidationError\<close> carries the errors found: each is the name of the field that
  failed and the reason. \<open>ValueError\<close> is the reason when a \<open>@validator\<close> of the source
  (or the address check of \<open>EmailStr\<close>) raised, with its message. An error inside the
  value of a field carries the rest of its location: \<open>Item i r\<close> is the reason \<open>r\<close> at item
  \<open>i\<close> of a list (pydantic's location \<open>field.i\<close>), \<open>Within f r\<close> is the reason \<open>r\<close> at the
  field \<open>f\<close> of a model that is the value (\<open>field.f\<close>).
\<close>

datatype reason =
    Missing
  | TypeError
  | StringTooShort nat
  | StringTooLong nat
  | LiteralError
  | ValueError string
  | Item nat reason
  | Within string reason

type_synonym ValidationError = "(string \<times> reason) list"

section \<open>The validation library\<close>

text \<open>
  The models are pydantic models, and pydantic itself is not part of the repository. The
  source uses pydantic 2 (\<open>from_attributes\<close> is a configuration key of pydantic 2) in its
  default mode, and what that does with a model is written out below: a value that
  already has the type of its field is taken unchanged, \<open>None\<close> is taken for an
  \<open>Optional\<close> field, a \<open>Literal\<close> field takes exactly its listed strings, a missing
  field without a default is an error, a missing field with a default takes the default
  without validating it, a \<open>@validator\<close> runs on the value that the field's type
  returned, every field is validated, and one \<open>ValidationError\<close> lists the errors of every
  field that failed.
  What the library makes of a value that has not the type of its field is a parameter
  (\<open>coerce_str\<close>, \<open>coerce_int\<close> and the others; \<open>None\<close>: the value is refused), and so is
  the address check of \<open>EmailStr\<close>, \<open>validate_email\<close>, which returns the normalised
  address. Nothing is assumed about these parameters.
\<close>

record pydantic =
  coerce_str :: "pyval \<Rightarrow> pystr option"
  coerce_int :: "pyval \<Rightarrow> int option"
  coerce_float :: "pyval \<Rightarrow> pyfloat option"
  coerce_list :: "pyval \<Rightarrow> pyval list option"
  coerce_date :: "pyval \<Rightarrow> date option"
  coerce_datetime :: "pyval \<Rightarrow> datetime option"
  validate_email :: "pystr \<Rightarrow> pystr option"

fun coerced :: "'a option \<Rightarrow> reason + 'a" where
  "coerced None = Inl TypeError"
| "coerced (Some x) = Inr x"

fun str_validator :: "pydantic \<Rightarrow> pyval \<Rightarrow> reason + pystr" where
  "str_validator lib (PStr s) = Inr s"
| "str_validator lib v = coerced (coerce_str lib v)"

fun int_validator :: "pydantic \<Rightarrow> pyval \<Rightarrow> reason + int" where
  "int_validator lib (PInt i) = Inr i"
| "int_validator lib v = coerced (coerce_int lib v)"

fun float_validator :: "pydantic \<Rightarrow> pyval \<Rightarrow> reason + pyfloat" where
  "float_validator lib (PFloat x) = Inr x"
| "float_validator lib v = coerced (coerce_float lib v)"

fun date_validator :: "pydantic \<Rightarrow> pyval \<Rightarrow> reason + date" where
  "date_validator lib (PDate d) = Inr d"
| "date_validator lib v = coerced (coerce_date lib v)"

fun datetime_validator :: "pydantic \<Rightarrow> pyval \<Rightarrow> reason + datetime" where
  "datetime_validator lib (PDatetime d) = Inr d"
| "datetime_validator lib v = coerced (coerce_datetime lib v)"

fun list_validator :: "pydantic \<Rightarrow> pyval \<Rightarrow> reason + pyval list" where
  "list_validator lib (PList vs) = Inr vs"
| "list_validator lib v = coerced (coerce_list lib v)"

text \<open>Sequencing: the next step runs on the value of the one before, an error stops the field.\<close>

fun and_then :: "'e + 'a \<Rightarrow> ('a \<Rightarrow> 'e + 'b) \<Rightarrow> 'e + 'b" where
  "and_then (Inl e) f = Inl e"
| "and_then (Inr x) f = f x"

text \<open>
  \<open>List[int]\<close>: a list, each of its items an int. Every item is validated, and every item
  that is refused gives an error of its own, at its index; \<open>int_items lib i vs\<close> validates
  the items \<open>vs\<close>, the first of which has the index \<open>i\<close>. A field of this type can so fail
  with several errors, and its result has a list of reasons on the left.
\<close>

fun int_items :: "pydantic \<Rightarrow> nat \<Rightarrow> pyval list \<Rightarrow> reason list + int list" where
  "int_items lib i [] = Inr []"
| "int_items lib i (v # vs) =
     (case (int_validator lib v, int_items lib (Suc i) vs) of
        (Inr d, Inr ds) \<Rightarrow> Inr (d # ds)
      | (Inr d, Inl es) \<Rightarrow> Inl es
      | (Inl e, Inr ds) \<Rightarrow> Inl [Item i e]
      | (Inl e, Inl es) \<Rightarrow> Inl (Item i e # es))"

definition list_int_validator :: "pydantic \<Rightarrow> pyval \<Rightarrow> reason list + int list" where
  "list_int_validator lib v =
     (case list_validator lib v of Inl e \<Rightarrow> Inl [e] | Inr vs \<Rightarrow> int_items lib 0 vs)"

text \<open>A step that fails with one reason, in a field that can fail with several.\<close>

fun single :: "reason + 'a \<Rightarrow> reason list + 'a" where
  "single (Inl e) = Inl [e]"
| "single (Inr x) = Inr x"

text \<open>\<open>EmailStr\<close>: a string that the address check accepts; the normalised address is kept.\<close>

definition email_validator :: "pydantic \<Rightarrow> pyval \<Rightarrow> reason + pystr" where
  "email_validator lib v =
     and_then (str_validator lib v) (\<lambda>s.
       case validate_email lib s of
         None \<Rightarrow> Inl (ValueError ''value is not a valid email address'')
       | Some e \<Rightarrow> Inr e)"

text \<open>\<open>Field(min_length=lo, max_length=hi)\<close> on a string; no \<open>min_length\<close> is \<open>lo = 0\<close>.\<close>

definition check_length :: "nat \<Rightarrow> nat option \<Rightarrow> pystr \<Rightarrow> reason + pystr" where
  "check_length lo hi s =
     (if length s < lo then Inl (StringTooShort lo)
      else case hi of
             None \<Rightarrow> Inr s
           | Some n \<Rightarrow> if n < length s then Inl (StringTooLong n) else Inr s)"

text \<open>\<open>Optional[T]\<close>: \<open>None\<close>, or a value of \<open>T\<close>.\<close>

fun optional :: "(pyval \<Rightarrow> 'e + 'a) \<Rightarrow> pyval \<Rightarrow> 'e + 'a option" where
  "optional validate PNone = Inr None"
| "optional validate v = and_then (validate v) (\<lambda>x. Inr (Some x))"

text \<open>
  A field without a default (\<open>Field(...)\<close> or a bare annotation) is required; a field with a
  default takes it when the key is absent, and the default is not validated.
\<close>

fun required :: "(pyval \<Rightarrow> reason + 'a) \<Rightarrow> pyval option \<Rightarrow> reason + 'a" where
  "required validate None = Inl Missing"
| "required validate (Some v) = validate v"

fun required_all :: "(pyval \<Rightarrow> reason list + 'a) \<Rightarrow> pyval option \<Rightarrow> reason list + 'a" where
  "required_all validate None = Inl [Missing]"
| "required_all validate (Some v) = validate v"

fun with_default :: "'a \<Rightarrow> (pyval \<Rightarrow> 'e + 'a) \<Rightarrow> pyval option \<Rightarrow> 'e + 'a" where
  "with_default d validate None = Inr d"
| "with_default d validate (Some v) = validate v"

definition errors_of :: "string \<Rightarrow> reason + 'a \<Rightarrow> ValidationError" where
  "errors_of field r = (case r of Inl e \<Rightarrow> [(field, e)] | Inr x \<Rightarrow> [])"

definition errors_of_all :: "string \<Rightarrow> reason list + 'a \<Rightarrow> ValidationError" where
  "errors_of_all field r = (case r of Inl es \<Rightarrow> map (Pair field) es | Inr x \<Rightarrow> [])"

section \<open>Literal types\<close>

text \<open>
  \<^verbatim>\<open>
  HabitFrequency = Literal['daily', 'weekly', 'custom']
  HabitStatus = Literal['active', 'archived']
  \<close>
  A \<open>Literal\<close> type has exactly the listed values; \<open>HabitFrequency_str\<close> and
  \<open>HabitStatus_str\<close> give the string that each value is.
\<close>

datatype HabitFrequency = Daily | Weekly | Custom

datatype HabitStatus = Active | Archived

fun HabitFrequency_str :: "HabitFrequency \<Rightarrow> pystr" where
  "HabitFrequency_str Daily = str ''daily''"
| "HabitFrequency_str Weekly = str ''weekly''"
| "HabitFrequency_str Custom = str ''custom''"

fun HabitStatus_str :: "HabitStatus \<Rightarrow> pystr" where
  "HabitStatus_str Active = str ''active''"
| "HabitStatus_str Archived = str ''archived''"

fun HabitFrequency_validator :: "pyval \<Rightarrow> reason + HabitFrequency" where
  "HabitFrequency_validator (PStr s) =
     (if s = str ''daily'' then Inr Daily
      else if s = str ''weekly'' then Inr Weekly
      else if s = str ''custom'' then Inr Custom
      else Inl LiteralError)"
| "HabitFrequency_validator v = Inl LiteralError"

fun HabitStatus_validator :: "pyval \<Rightarrow> reason + HabitStatus" where
  "HabitStatus_validator (PStr s) =
     (if s = str ''active'' then Inr Active
      else if s = str ''archived'' then Inr Archived
      else Inl LiteralError)"
| "HabitStatus_validator v = Inl LiteralError"

section \<open>User models\<close>

text \<open>The record \<open>User\<close> is declared above, with the values.\<close>

definition User :: "pydantic \<Rightarrow> (string \<rightharpoonup> pyval) \<Rightarrow> ValidationError + User" where
  "User lib m =
     (let i = required (str_validator lib) (m ''id'');
          e = required (email_validator lib) (m ''email'');
          n = required (str_validator lib) (m ''name'');
          ca = required (datetime_validator lib) (m ''created_at'');
          ua = required (datetime_validator lib) (m ''updated_at'');
          errs = errors_of ''id'' i @ errors_of ''email'' e @ errors_of ''name'' n
               @ errors_of ''created_at'' ca @ errors_of ''updated_at'' ua
      in if errs = []
         then Inr \<lparr>id' = projr i, email = projr e, name = projr n,
                   created_at = projr ca, updated_at = projr ua\<rparr>
         else Inl errs)"

text \<open>
  \<^verbatim>\<open>
  class UserLogin(BaseModel):
      email: EmailStr
      password: str
  \<close>
\<close>

record UserLogin =
  email :: pystr
  password :: pystr

definition UserLogin :: "pydantic \<Rightarrow> (string \<rightharpoonup> pyval) \<Rightarrow> ValidationError + UserLogin" where
  "UserLogin lib m =
     (let e = required (email_validator lib) (m ''email'');
          p = required (str_validator lib) (m ''password'');
          errs = errors_of ''email'' e @ errors_of ''password'' p
      in if errs = []
         then Inr \<lparr>email = projr e, password = projr p\<rparr>
         else Inl errs)"

text \<open>
  \<^verbatim>\<open>
  class AuthResponse(BaseModel):
      user: User
      token: str
  \<close>
  The value of \<open>user\<close> is a \<open>User\<close>, taken as it is, or a mapping, from which a \<open>User\<close> is
  constructed: its errors are errors of \<open>user\<close>, each at its field. No other value of
  \<open>pyval\<close> is taken for a model.
\<close>

record AuthResponse =
  user :: User
  token :: pystr

fun User_validator :: "pydantic \<Rightarrow> pyval \<Rightarrow> reason list + User" where
  "User_validator lib (PUser u) = Inr u"
| "User_validator lib (PDict items) =
     (case User lib (map_of items) of
        Inl errs \<Rightarrow> Inl (map (\<lambda>(f, e). Within f e) errs)
      | Inr u \<Rightarrow> Inr u)"
| "User_validator lib v = Inl [TypeError]"

definition AuthResponse ::
  "pydantic \<Rightarrow> (string \<rightharpoonup> pyval) \<Rightarrow> ValidationError + AuthResponse" where
  "AuthResponse lib m =
     (let u = required_all (User_validator lib) (m ''user'');
          t = required (str_validator lib) (m ''token'');
          errs = errors_of_all ''user'' u @ errors_of ''token'' t
      in if errs = []
         then Inr \<lparr>user = projr u, token = projr t\<rparr>
         else Inl errs)"

text \<open>
  \<^verbatim>\<open>
  class UserRegistration(BaseModel):
      email: EmailStr
      password: str = Field(..., min_length=8)
      name: str = Field(..., min_length=1)
  \<close>
\<close>

record UserRegistration =
  email :: pystr
  password :: pystr
  name :: pystr

definition UserRegistration_email :: "pydantic \<Rightarrow> pyval option \<Rightarrow> reason + pystr" where
  "UserRegistration_email lib raw = required (email_validator lib) raw"

definition UserRegistration_password :: "pydantic \<Rightarrow> pyval option \<Rightarrow> reason + pystr" where
  "UserRegistration_password lib raw =
     required (\<lambda>v. and_then (str_validator lib v) (check_length 8 None)) raw"

definition UserRegistration_name :: "pydantic \<Rightarrow> pyval option \<Rightarrow> reason + pystr" where
  "UserRegistration_name lib raw =
     required (\<lambda>v. and_then (str_validator lib v) (check_length 1 None)) raw"

definition UserRegistration ::
  "pydantic \<Rightarrow> (string \<rightharpoonup> pyval) \<Rightarrow> ValidationError + UserRegistration" where
  "UserRegistration lib m =
     (let e = UserRegistration_email lib (m ''email'');
          p = UserRegistration_password lib (m ''password'');
          n = UserRegistration_name lib (m ''name'');
          errs = errors_of ''email'' e @ errors_of ''password'' p @ errors_of ''name'' n
      in if errs = []
         then Inr \<lparr>email = projr e, password = projr p, UserRegistration.name = projr n\<rparr>
         else Inl errs)"

section \<open>Completion models\<close>

text \<open>
  \<^verbatim>\<open>
  class CompletionInput(BaseModel):
      date: date
      notes: Optional[str] = None
  \<close>
  The field \<open>notes\<close> is \<open>notes'\<close> in a record; its key in a mapping is \<open>notes\<close>.
\<close>

record CompletionInput =
  date :: date
  notes' :: "pystr option"

definition CompletionInput ::
  "pydantic \<Rightarrow> (string \<rightharpoonup> pyval) \<Rightarrow> ValidationError + CompletionInput" where
  "CompletionInput lib m =
     (let d = required (date_validator lib) (m ''date'');
          n = with_default None (optional (str_validator lib)) (m ''notes'');
          errs = errors_of ''date'' d @ errors_of ''notes'' n
      in if errs = []
         then Inr \<lparr>date = projr d, notes' = projr n\<rparr>
         else Inl errs)"

text \<open>
  \<^verbatim>\<open>
  class Completion(BaseModel):
      id: str
      habit_id: str
      date: date
      notes: Optional[str]
      created_at: datetime
  \<close>
  \<open>notes\<close> has no default here: in pydantic 2 the key is required, and its value may be
  \<open>None\<close>.
\<close>

record Completion =
  id' :: pystr
  habit_id :: pystr
  date :: date
  notes' :: "pystr option"
  created_at :: datetime

definition Completion ::
  "pydantic \<Rightarrow> (string \<rightharpoonup> pyval) \<Rightarrow> ValidationError + Completion" where
  "Completion lib m =
     (let i = required (str_validator lib) (m ''id'');
          h = required (str_validator lib) (m ''habit_id'');
          d = required (date_validator lib) (m ''date'');
          n = required (optional (str_validator lib)) (m ''notes'');
          ca = required (datetime_validator lib) (m ''created_at'');
          errs = errors_of ''id'' i @ errors_of ''habit_id'' h @ errors_of ''date'' d
               @ errors_of ''notes'' n @ errors_of ''created_at'' ca
      in if errs = []
         then Inr \<lparr>id' = projr i, habit_id = projr h, date = projr d, notes' = projr n,
                   created_at = projr ca\<rparr>
         else Inl errs)"

section \<open>API response models\<close>

text \<open>
  \<^verbatim>\<open>
  class ApiError(BaseModel):
      error: str
      message: str
      status_code: int

  class HealthResponse(BaseModel):
      status: str
      timestamp: datetime
      version: str

  class HelloResponse(BaseModel):
      message: str
  \<close>
\<close>

record ApiError =
  error :: pystr
  message :: pystr
  status_code :: int

definition ApiError :: "pydantic \<Rightarrow> (string \<rightharpoonup> pyval) \<Rightarrow> ValidationError + ApiError" where
  "ApiError lib m =
     (let e = required (str_validator lib) (m ''error'');
          g = required (str_validator lib) (m ''message'');
          c = required (int_validator lib) (m ''status_code'');
          errs = errors_of ''error'' e @ errors_of ''message'' g @ errors_of ''status_code'' c
      in if errs = []
         then Inr \<lparr>error = projr e, message = projr g, status_code = projr c\<rparr>
         else Inl errs)"

record HealthResponse =
  status :: pystr
  timestamp :: datetime
  version :: pystr

definition HealthResponse ::
  "pydantic \<Rightarrow> (string \<rightharpoonup> pyval) \<Rightarrow> ValidationError + HealthResponse" where
  "HealthResponse lib m =
     (let s = required (str_validator lib) (m ''status'');
          t = required (datetime_validator lib) (m ''timestamp'');
          v = required (str_validator lib) (m ''version'');
          errs = errors_of ''status'' s @ errors_of ''timestamp'' t @ errors_of ''version'' v
      in if errs = []
         then Inr \<lparr>status = projr s, timestamp = projr t, version = projr v\<rparr>
         else Inl errs)"

record HelloResponse =
  message :: pystr

definition HelloResponse ::
  "pydantic \<Rightarrow> (string \<rightharpoonup> pyval) \<Rightarrow> ValidationError + HelloResponse" where
  "HelloResponse lib m =
     (let g = required (str_validator lib) (m ''message'');
          errs = errors_of ''message'' g
      in if errs = []
         then Inr \<lparr>message = projr g\<rparr>
         else Inl errs)"

section \<open>Query parameters\<close>

text \<open>
  \<^verbatim>\<open>
  class ListHabitsQuery(BaseModel):
      status: Optional[HabitStatus] = None

  class ListCompletionsQuery(BaseModel):
      start_date: Optional[date] = None
      end_date: Optional[date] = None
  \<close>
\<close>

record ListHabitsQuery =
  status :: "HabitStatus option"

definition ListHabitsQuery ::
  "pydantic \<Rightarrow> (string \<rightharpoonup> pyval) \<Rightarrow> ValidationError + ListHabitsQuery" where
  "ListHabitsQuery lib m =
     (let s = with_default None (optional HabitStatus_validator) (m ''status'');
          errs = errors_of ''status'' s
      in if errs = []
         then Inr \<lparr>status = projr s\<rparr>
         else Inl errs)"

record ListCompletionsQuery =
  start_date :: "date option"
  end_date :: "date option"

definition ListCompletionsQuery ::
  "pydantic \<Rightarrow> (string \<rightharpoonup> pyval) \<Rightarrow> ValidationError + ListCompletionsQuery" where
  "ListCompletionsQuery lib m =
     (let s = with_default None (optional (date_validator lib)) (m ''start_date'');
          e = with_default None (optional (date_validator lib)) (m ''end_date'');
          errs = errors_of ''start_date'' s @ errors_of ''end_date'' e
      in if errs = []
         then Inr \<lparr>start_date = projr s, end_date = projr e\<rparr>
         else Inl errs)"

section \<open>Statistics models\<close>

text \<open>
  \<^verbatim>\<open>
  class HabitStatistics(BaseModel):
      habit_id: str
      current_streak: int
      longest_streak: int
      total_completions: int
      completion_rate: float
      last_completed_date: Optional[date]
  \<close>
  \<open>last_completed_date\<close> has no default: in pydantic 2 the key is required, and its value
  may be \<open>None\<close>.
\<close>

record HabitStatistics =
  habit_id :: pystr
  current_streak :: int
  longest_streak :: int
  total_completions :: int
  completion_rate :: pyfloat
  last_completed_date :: "date option"

definition HabitStatistics ::
  "pydantic \<Rightarrow> (string \<rightharpoonup> pyval) \<Rightarrow> ValidationError + HabitStatistics" where
  "HabitStatistics lib m =
     (let h = required (str_validator lib) (m ''habit_id'');
          c = required (int_validator lib) (m ''current_streak'');
          l = required (int_validator lib) (m ''longest_streak'');
          t = required (int_validator lib) (m ''total_completions'');
          r = required (float_validator lib) (m ''completion_rate'');
          d = required (optional (date_validator lib)) (m ''last_completed_date'');
          errs = errors_of ''habit_id'' h @ errors_of ''current_streak'' c
               @ errors_of ''longest_streak'' l @ errors_of ''total_completions'' t
               @ errors_of ''completion_rate'' r @ errors_of ''last_completed_date'' d
      in if errs = []
         then Inr \<lparr>habit_id = projr h, current_streak = projr c, longest_streak = projr l,
                   total_completions = projr t, completion_rate = projr r,
                   last_completed_date = projr d\<rparr>
         else Inl errs)"

section \<open>Habit models\<close>

subsection \<open>The colour pattern\<close>

text \<open>
  \<^verbatim>\<open>re.match(r'^#[0-9A-Fa-f]{6}$', v)\<close>: a \<open>#\<close> (code point 35), six characters of the class
  \<open>[0-9A-Fa-f]\<close>, and then \<open>$\<close>. Without \<open>re.MULTILINE\<close>, Python's \<open>$\<close> matches at the end of
  the string and also just before a newline (code point 10) that ends the string.
\<close>

definition hex_class :: "codepoint \<Rightarrow> bool" where
  "hex_class c = ((48 \<le> c \<and> c \<le> 57) \<or> (65 \<le> c \<and> c \<le> 70) \<or> (97 \<le> c \<and> c \<le> 102))"

definition dollar :: "pystr \<Rightarrow> bool" where
  "dollar rest = (rest = [] \<or> rest = [10])"

fun re_match_color :: "pystr \<Rightarrow> bool" where
  "re_match_color [] = False"
| "re_match_color (c # cs) =
     (c = 35 \<and> 6 \<le> length cs \<and> list_all hex_class (take 6 cs) \<and> dollar (drop 6 cs))"

subsection \<open>The validators of HabitInput\<close>

text \<open>
  \<^verbatim>\<open>
  @validator('color')
  def validate_color(cls, v):
      if v and not re.match(r'^#[0-9A-Fa-f]{6}$', v):
          raise ValueError('Color must be a valid hex color code')
      return v
  \<close>
  The validator runs after the field's own type (\<open>Optional[str]\<close>), so \<open>v\<close> is \<open>None\<close> or a
  string. \<open>truthy\<close> is Python's truth value of such a \<open>v\<close>, and of an optional list:
  \<open>None\<close> and the empty string or list are false.
\<close>

fun truthy :: "'a list option \<Rightarrow> bool" where
  "truthy None = False"
| "truthy (Some xs) = (xs \<noteq> [])"

definition validate_color :: "pystr option \<Rightarrow> reason + pystr option" where
  "validate_color v =
     (if truthy v \<and> \<not> re_match_color (the v)
      then Inl (ValueError ''Color must be a valid hex color code'')
      else Inr v)"

text \<open>
  \<^verbatim>\<open>
  @validator('target_days')
  def validate_target_days(cls, v):
      if v:
          for day in v:
              if not isinstance(day, int) or day < 0 or day > 6:
                  raise ValueError('target_days must contain integers between 0 and 6')
      return v
  \<close>
  This validator too runs after the field's type (\<open>Optional[List[int]]\<close>): every \<open>day\<close> it
  sees is an int, and \<open>isinstance(day, int)\<close> holds of each.
\<close>

definition isinstance_int :: "int \<Rightarrow> bool" where
  "isinstance_int day = True"

fun for_day :: "int list \<Rightarrow> reason option" where
  "for_day [] = None"
| "for_day (day # rest) =
     (if \<not> isinstance_int day \<or> day < 0 \<or> day > 6
      then Some (ValueError ''target_days must contain integers between 0 and 6'')
      else for_day rest)"

definition validate_target_days :: "int list option \<Rightarrow> reason + int list option" where
  "validate_target_days v =
     (if truthy v
      then (case for_day (the v) of Some e \<Rightarrow> Inl e | None \<Rightarrow> Inr v)
      else Inr v)"

subsection \<open>HabitInput\<close>

text \<open>
  \<^verbatim>\<open>
  class HabitInput(BaseModel):
      name: str = Field(..., min_length=1, max_length=100)
      description: Optional[str] = Field(None, max_length=500)
      frequency: HabitFrequency
      target_days: Optional[List[int]] = Field(default_factory=list)
      color: Optional[str] = Field(default='#3B82F6')
      icon: Optional[str] = Field(default='...')     (the star, U+2B50)
  \<close>
\<close>

record HabitInput =
  name :: pystr
  description :: "pystr option"
  frequency :: HabitFrequency
  target_days :: "int list option"
  color :: "pystr option"
  icon :: "pystr option"

definition HabitInput_name :: "pydantic \<Rightarrow> pyval option \<Rightarrow> reason + pystr" where
  "HabitInput_name lib raw =
     required (\<lambda>v. and_then (str_validator lib v) (check_length 1 (Some 100))) raw"

definition HabitInput_description :: "pydantic \<Rightarrow> pyval option \<Rightarrow> reason + pystr option" where
  "HabitInput_description lib raw =
     with_default None
       (optional (\<lambda>v. and_then (str_validator lib v) (check_length 0 (Some 500)))) raw"

definition HabitInput_frequency :: "pyval option \<Rightarrow> reason + HabitFrequency" where
  "HabitInput_frequency raw = required HabitFrequency_validator raw"

definition HabitInput_target_days ::
  "pydantic \<Rightarrow> pyval option \<Rightarrow> reason list + int list option" where
  "HabitInput_target_days lib raw =
     with_default (Some [])
       (\<lambda>v. and_then (optional (list_int_validator lib) v)
              (\<lambda>days. single (validate_target_days days))) raw"

definition HabitInput_color :: "pydantic \<Rightarrow> pyval option \<Rightarrow> reason + pystr option" where
  "HabitInput_color lib raw =
     with_default (Some (str ''#3B82F6''))
       (\<lambda>v. and_then (optional (str_validator lib) v) validate_color) raw"

definition star :: pystr where
  "star = [11088]"

definition HabitInput_icon :: "pydantic \<Rightarrow> pyval option \<Rightarrow> reason + pystr option" where
  "HabitInput_icon lib raw = with_default (Some star) (optional (str_validator lib)) raw"

definition HabitInput ::
  "pydantic \<Rightarrow> (string \<rightharpoonup> pyval) \<Rightarrow> ValidationError + HabitInput" where
  "HabitInput lib m =
     (let n = HabitInput_name lib (m ''name'');
          d = HabitInput_description lib (m ''description'');
          f = HabitInput_frequency (m ''frequency'');
          t = HabitInput_target_days lib (m ''target_days'');
          c = HabitInput_color lib (m ''color'');
          i = HabitInput_icon lib (m ''icon'');
          errs = errors_of ''name'' n @ errors_of ''description'' d
               @ errors_of ''frequency'' f @ errors_of_all ''target_days'' t
               @ errors_of ''color'' c @ errors_of ''icon'' i
      in if errs = []
         then Inr \<lparr>name = projr n, description = projr d, frequency = projr f,
                   target_days = projr t, color = projr c, icon = projr i\<rparr>
         else Inl errs)"

subsection \<open>Habit\<close>

text \<open>
  \<^verbatim>\<open>
  class Habit(HabitInput):
      id: str
      user_id: str
      status: HabitStatus = 'active'
      created_at: datetime
      updated_at: datetime
  \<close>
  The fields and validators of \<open>HabitInput\<close> come first, then these. The field \<open>id\<close> is
  \<open>id'\<close> in the record; its key in a mapping is \<open>id\<close>.
\<close>

record Habit = HabitInput +
  id' :: pystr
  user_id :: pystr
  status :: HabitStatus
  created_at :: datetime
  updated_at :: datetime

definition Habit_status :: "pyval option \<Rightarrow> reason + HabitStatus" where
  "Habit_status raw = with_default Active HabitStatus_validator raw"

definition Habit :: "pydantic \<Rightarrow> (string \<rightharpoonup> pyval) \<Rightarrow> ValidationError + Habit" where
  "Habit lib m =
     (let n = HabitInput_name lib (m ''name'');
          d = HabitInput_description lib (m ''description'');
          f = HabitInput_frequency (m ''frequency'');
          t = HabitInput_target_days lib (m ''target_days'');
          c = HabitInput_color lib (m ''color'');
          i = HabitInput_icon lib (m ''icon'');
          k = required (str_validator lib) (m ''id'');
          u = required (str_validator lib) (m ''user_id'');
          s = Habit_status (m ''status'');
          ca = required (datetime_validator lib) (m ''created_at'');
          ua = required (datetime_validator lib) (m ''updated_at'');
          errs = errors_of ''name'' n @ errors_of ''description'' d
               @ errors_of ''frequency'' f @ errors_of_all ''target_days'' t
               @ errors_of ''color'' c @ errors_of ''icon'' i
               @ errors_of ''id'' k @ errors_of ''user_id'' u @ errors_of ''status'' s
               @ errors_of ''created_at'' ca @ errors_of ''updated_at'' ua
      in if errs = []
         then Inr \<lparr>name = projr n, description = projr d, frequency = projr f,
                   target_days = projr t, color = projr c, icon = projr i,
                   id' = projr k, user_id = projr u, status = projr s,
                   created_at = projr ca, updated_at = projr ua\<rparr>
         else Inl errs)"

text \<open>
  Serialising a \<open>Habit\<close> (\<open>model_dump()\<close>): the mapping from each field's name to its
  value, an absent optional value as \<open>None\<close>.
\<close>

fun dump_optional :: "('a \<Rightarrow> pyval) \<Rightarrow> 'a option \<Rightarrow> pyval" where
  "dump_optional f None = PNone"
| "dump_optional f (Some x) = f x"

definition model_dump :: "Habit \<Rightarrow> (string \<rightharpoonup> pyval)" where
  "model_dump h =
     [''name'' \<mapsto> PStr (name h),
      ''description'' \<mapsto> dump_optional PStr (description h),
      ''frequency'' \<mapsto> PStr (HabitFrequency_str (frequency h)),
      ''target_days'' \<mapsto> dump_optional (\<lambda>ds. PList (map PInt ds)) (target_days h),
      ''color'' \<mapsto> dump_optional PStr (color h),
      ''icon'' \<mapsto> dump_optional PStr (icon h),
      ''id'' \<mapsto> PStr (id' h),
      ''user_id'' \<mapsto> PStr (user_id h),
      ''status'' \<mapsto> PStr (HabitStatus_str (status h)),
      ''created_at'' \<mapsto> PDatetime (created_at h),
      ''updated_at'' \<mapsto> PDatetime (updated_at h)]"

section \<open>Two instances of the library\<close>

text \<open>
  \<open>strict\<close> coerces nothing: a value that has not the type of its field is refused. Its
  address check accepts a string in which one \<open>@\<close> (code point 64) stands between two
  non-empty parts, and keeps it as it is.
\<close>

definition simple_address :: "pystr \<Rightarrow> pystr option" where
  "simple_address s =
     (let local = takeWhile (\<lambda>c. c \<noteq> 64) s;
          domain = drop (Suc (length local)) s
      in if local \<noteq> [] \<and> domain \<noteq> [] \<and> 64 \<notin> set domain then Some s else None)"

definition strict :: pydantic where
  "strict =
     \<lparr>coerce_str = (\<lambda>v. None), coerce_int = (\<lambda>v. None), coerce_float = (\<lambda>v. None),
      coerce_list = (\<lambda>v. None), coerce_date = (\<lambda>v. None), coerce_datetime = (\<lambda>v. None),
      validate_email = simple_address\<rparr>"

text \<open>
  \<open>lax\<close> is \<open>strict\<close> but for one coercion of pydantic's default mode: where an int is
  expected, a non-empty string of the digits \<open>0\<close> to \<open>9\<close> is taken as the int it spells.
\<close>

fun decimal :: "pystr \<Rightarrow> int \<Rightarrow> int option" where
  "decimal [] acc = Some acc"
| "decimal (c # cs) acc =
     (if 48 \<le> c \<and> c \<le> 57 then decimal cs (10 * acc + int (c - 48)) else None)"

fun digits_int :: "pyval \<Rightarrow> int option" where
  "digits_int (PStr (c # cs)) = decimal (c # cs) 0"
| "digits_int v = None"

definition lax :: pydantic where
  "lax = strict\<lparr>coerce_int := digits_int\<rparr>"

section \<open>Properties\<close>

subsection \<open>How a constructor succeeds and how it fails\<close>

text \<open>
  A constructor returns a record exactly when every field validates, and the record holds
  the validated values; otherwise it returns the errors of the fields that failed, in the
  order of the fields.
\<close>

lemma errors_of_Nil: "errors_of f r = [] \<longleftrightarrow> \<not> isl r"
  by (cases r) (simp_all add: errors_of_def)

lemma in_errors_of: "(f, e) \<in> set (errors_of g r) \<longleftrightarrow> f = g \<and> r = Inl e"
  by (cases r) (auto simp: errors_of_def)

lemma errors_of_all_Nil: "errors_of_all f r = [] \<longleftrightarrow> \<not> isl r \<or> r = Inl []"
  by (cases r) (simp_all add: errors_of_all_def)

lemma in_errors_of_all:
  "(f, e) \<in> set (errors_of_all g r) \<longleftrightarrow> f = g \<and> (\<exists>es. r = Inl es \<and> e \<in> set es)"
  by (cases r) (auto simp: errors_of_all_def)

lemma int_items_nonempty: "int_items lib i vs \<noteq> Inl []"
  by (induction vs arbitrary: i) (auto split: sum.splits)

lemma list_int_validator_nonempty: "list_int_validator lib v \<noteq> Inl []"
  by (simp add: list_int_validator_def int_items_nonempty split: sum.splits)

lemma HabitInput_target_days_nonempty: "HabitInput_target_days lib raw \<noteq> Inl []"
proof (cases raw)
  case None
  then show ?thesis by (simp add: HabitInput_target_days_def)
next
  case (Some v)
  have "optional (list_int_validator lib) v \<noteq> Inl []"
    using list_int_validator_nonempty [of lib v]
    by (cases v; cases "list_int_validator lib v") auto
  moreover have "single r \<noteq> Inl []" for r :: "reason + int list option"
    by (cases r) auto
  ultimately show ?thesis
    using Some
    by (cases "optional (list_int_validator lib) v") (auto simp: HabitInput_target_days_def)
qed

lemma Inr_iff: "r = Inr x \<longleftrightarrow> \<not> isl r \<and> projr r = x"
  by (cases r) auto

lemma and_then_Inr: "and_then r f = Inr y \<longleftrightarrow> (\<exists>x. r = Inr x \<and> f x = Inr y)"
  by (cases r) auto

lemma check_length_Inr:
  "check_length lo hi s = Inr t \<longleftrightarrow>
     t = s \<and> lo \<le> length s \<and> (case hi of None \<Rightarrow> True | Some n \<Rightarrow> length s \<le> n)"
  by (auto simp: check_length_def split: option.splits)

lemma optional_Inr_Some:
  "optional f v = Inr (Some x) \<longleftrightarrow> v \<noteq> PNone \<and> f v = Inr x"
  by (cases v; cases "f v") auto

lemma HabitInput_Inr_iff:
  "HabitInput lib m = Inr h \<longleftrightarrow>
     HabitInput_name lib (m ''name'') = Inr (name h) \<and>
     HabitInput_description lib (m ''description'') = Inr (description h) \<and>
     HabitInput_frequency (m ''frequency'') = Inr (frequency h) \<and>
     HabitInput_target_days lib (m ''target_days'') = Inr (target_days h) \<and>
     HabitInput_color lib (m ''color'') = Inr (color h) \<and>
     HabitInput_icon lib (m ''icon'') = Inr (icon h)"
  by (cases h)
    (auto simp: HabitInput_def Let_def errors_of_Nil errors_of_all_Nil
      HabitInput_target_days_nonempty Inr_iff)

lemma Habit_Inr_iff:
  "Habit lib m = Inr h \<longleftrightarrow>
     HabitInput_name lib (m ''name'') = Inr (name h) \<and>
     HabitInput_description lib (m ''description'') = Inr (description h) \<and>
     HabitInput_frequency (m ''frequency'') = Inr (frequency h) \<and>
     HabitInput_target_days lib (m ''target_days'') = Inr (target_days h) \<and>
     HabitInput_color lib (m ''color'') = Inr (color h) \<and>
     HabitInput_icon lib (m ''icon'') = Inr (icon h) \<and>
     required (str_validator lib) (m ''id'') = Inr (id' h) \<and>
     required (str_validator lib) (m ''user_id'') = Inr (user_id h) \<and>
     Habit_status (m ''status'') = Inr (status h) \<and>
     required (datetime_validator lib) (m ''created_at'') = Inr (created_at h) \<and>
     required (datetime_validator lib) (m ''updated_at'') = Inr (updated_at h)"
  by (cases h)
    (auto simp: Habit_def Let_def errors_of_Nil errors_of_all_Nil
      HabitInput_target_days_nonempty Inr_iff)

lemma HabitInput_Inl_iff:
  "HabitInput lib m = Inl errs \<longleftrightarrow>
     errs \<noteq> [] \<and>
     errs = errors_of ''name'' (HabitInput_name lib (m ''name''))
          @ errors_of ''description'' (HabitInput_description lib (m ''description''))
          @ errors_of ''frequency'' (HabitInput_frequency (m ''frequency''))
          @ errors_of_all ''target_days'' (HabitInput_target_days lib (m ''target_days''))
          @ errors_of ''color'' (HabitInput_color lib (m ''color''))
          @ errors_of ''icon'' (HabitInput_icon lib (m ''icon''))"
  by (auto simp: HabitInput_def Let_def)

lemma Habit_Inl_iff:
  "Habit lib m = Inl errs \<longleftrightarrow>
     errs \<noteq> [] \<and>
     errs = errors_of ''name'' (HabitInput_name lib (m ''name''))
          @ errors_of ''description'' (HabitInput_description lib (m ''description''))
          @ errors_of ''frequency'' (HabitInput_frequency (m ''frequency''))
          @ errors_of_all ''target_days'' (HabitInput_target_days lib (m ''target_days''))
          @ errors_of ''color'' (HabitInput_color lib (m ''color''))
          @ errors_of ''icon'' (HabitInput_icon lib (m ''icon''))
          @ errors_of ''id'' (required (str_validator lib) (m ''id''))
          @ errors_of ''user_id'' (required (str_validator lib) (m ''user_id''))
          @ errors_of ''status'' (Habit_status (m ''status''))
          @ errors_of ''created_at'' (required (datetime_validator lib) (m ''created_at''))
          @ errors_of ''updated_at'' (required (datetime_validator lib) (m ''updated_at''))"
  by (auto simp: Habit_def Let_def)

lemma UserRegistration_Inr_iff:
  "UserRegistration lib m = Inr r \<longleftrightarrow>
     UserRegistration_email lib (m ''email'') = Inr (email r) \<and>
     UserRegistration_password lib (m ''password'') = Inr (password r) \<and>
     UserRegistration_name lib (m ''name'') = Inr (UserRegistration.name r)"
  by (cases r) (auto simp: UserRegistration_def Let_def errors_of_Nil Inr_iff)

lemma UserRegistration_Inl_iff:
  "UserRegistration lib m = Inl errs \<longleftrightarrow>
     errs \<noteq> [] \<and>
     errs = errors_of ''email'' (UserRegistration_email lib (m ''email''))
          @ errors_of ''password'' (UserRegistration_password lib (m ''password''))
          @ errors_of ''name'' (UserRegistration_name lib (m ''name''))"
  by (auto simp: UserRegistration_def Let_def)

text \<open>
The definitions that evaluating a constructor on a concrete input unfolds.
\<close>

lemmas field_defs =
  HabitInput_name_def HabitInput_description_def HabitInput_frequency_def
  HabitInput_target_days_def HabitInput_color_def HabitInput_icon_def Habit_status_def
  errors_of_def errors_of_all_def
  check_length_def validate_color_def validate_target_days_def list_int_validator_def
  isinstance_int_def hex_class_def dollar_def str_def strict_def

subsection \<open>The colour of a habit\<close>

text \<open>
  What \<open>re.match\<close> accepts: \<open>#\<close> and six hexadecimal digits, or that followed by one
  newline, which Python's \<open>$\<close> lets through.
\<close>

lemma re_match_color_iff:
  "re_match_color s \<longleftrightarrow>
     (\<exists>ds. length ds = 6 \<and> list_all hex_class ds \<and> (s = 35 # ds \<or> s = 35 # ds @ [10]))"
proof
  assume a: "re_match_color s"
  then obtain cs where s: "s = 35 # cs" and l: "6 \<le> length cs"
    and h: "list_all hex_class (take 6 cs)" and d: "dollar (drop 6 cs)"
    by (cases s) auto
  from d have "cs = take 6 cs \<or> cs = take 6 cs @ [10]"
    unfolding dollar_def by (metis append_take_drop_id append_Nil2)
  with s l h show "\<exists>ds. length ds = 6 \<and> list_all hex_class ds \<and> (s = 35 # ds \<or> s = 35 # ds @ [10])"
    by (intro exI [of _ "take 6 cs"]) auto
next
  assume "\<exists>ds. length ds = 6 \<and> list_all hex_class ds \<and> (s = 35 # ds \<or> s = 35 # ds @ [10])"
  then show "re_match_color s"
    by (auto simp: dollar_def)
qed

lemma re_match_color_newline: "re_match_color (str ''#123456'' @ [10])"
  by (simp add: str_def hex_class_def dollar_def)

lemma re_match_default: "re_match_color (str ''#3B82F6'')"
  by (simp add: str_def hex_class_def dollar_def)

lemma HabitInput_color_str:
  "HabitInput_color lib (Some (PStr s)) =
     (if s \<noteq> [] \<and> \<not> re_match_color s
      then Inl (ValueError ''Color must be a valid hex color code'')
      else Inr (Some s))"
  by (simp add: HabitInput_color_def validate_color_def)

lemma HabitInput_color_valid:
  assumes "HabitInput_color lib raw = Inr (Some c)"
  shows "c = [] \<or> re_match_color c"
proof (cases raw)
  case None
  with assms show ?thesis
    by (auto simp: HabitInput_color_def re_match_default)
next
  case (Some v)
  show ?thesis
  proof (cases "optional (str_validator lib) v")
    case (Inl e)
    with assms Some show ?thesis by (simp add: HabitInput_color_def)
  next
    case (Inr x)
    with assms Some show ?thesis
      by (auto simp: HabitInput_color_def validate_color_def split: if_splits)
  qed
qed

lemma HabitInput_color_fails:
  "HabitInput_color lib (m ''color'') = Inl e \<Longrightarrow>
     \<exists>errs. HabitInput lib m = Inl errs \<and> (''color'', e) \<in> set errs"
  by (auto simp: HabitInput_Inl_iff in_errors_of errors_of_Nil errors_of_all_Nil
      HabitInput_target_days_nonempty)

lemma Habit_color_fails:
  "HabitInput_color lib (m ''color'') = Inl e \<Longrightarrow>
     \<exists>errs. Habit lib m = Inl errs \<and> (''color'', e) \<in> set errs"
  by (auto simp: Habit_Inl_iff in_errors_of errors_of_Nil errors_of_all_Nil
      HabitInput_target_days_nonempty)

text \<open>
  C1, as the code has it. A colour given as a non-empty string that \<open>re.match\<close> does not
  match makes the construction of a \<open>HabitInput\<close> and of a \<open>Habit\<close> fail, and the error
  names the field \<open>color\<close> with the validator's message. The colour of every record that
  was constructed is \<open>None\<close>, the empty string, or a string that \<open>re.match\<close> matches.
  The empty string is not rejected: \<open>if v and ...\<close> skips the check for it.
\<close>

theorem color_rejected:
  "(m ''color'' = Some (PStr s) \<and> s \<noteq> [] \<and> \<not> re_match_color s \<longrightarrow>
      (\<exists>errs. HabitInput lib m = Inl errs \<and>
         (''color'', ValueError ''Color must be a valid hex color code'') \<in> set errs) \<and>
      (\<exists>errs. Habit lib m = Inl errs \<and>
         (''color'', ValueError ''Color must be a valid hex color code'') \<in> set errs)) \<and>
   (HabitInput lib m1 = Inr h1 \<and> color h1 = Some c1 \<and> c1 \<noteq> [] \<longrightarrow> re_match_color c1) \<and>
   (Habit lib m2 = Inr h2 \<and> color h2 = Some c2 \<and> c2 \<noteq> [] \<longrightarrow> re_match_color c2)"
proof (intro conjI impI)
  assume a: "m ''color'' = Some (PStr s) \<and> s \<noteq> [] \<and> \<not> re_match_color s"
  then have "HabitInput_color lib (m ''color'') =
      Inl (ValueError ''Color must be a valid hex color code'')"
    by (simp add: HabitInput_color_str)
  then show "\<exists>errs. HabitInput lib m = Inl errs \<and>
         (''color'', ValueError ''Color must be a valid hex color code'') \<in> set errs"
    and "\<exists>errs. Habit lib m = Inl errs \<and>
         (''color'', ValueError ''Color must be a valid hex color code'') \<in> set errs"
    by (rule HabitInput_color_fails, rule Habit_color_fails)
next
  assume "HabitInput lib m1 = Inr h1 \<and> color h1 = Some c1 \<and> c1 \<noteq> []"
  then show "re_match_color c1"
    using HabitInput_color_valid [of lib "m1 ''color''" c1] by (auto simp: HabitInput_Inr_iff)
next
  assume "Habit lib m2 = Inr h2 \<and> color h2 = Some c2 \<and> c2 \<noteq> []"
  then show "re_match_color c2"
    using HabitInput_color_valid [of lib "m2 ''color''" c2] by (auto simp: Habit_Inr_iff)
qed

text \<open>
  The theorem at the colour \<open>red\<close>, which is rejected, and at records constructed with
  the colours \<open>#aBc123\<close> and \<open>#3B82F6\<close>.
\<close>

theorem color_rejected_witness:
  "\<not> re_match_color (str ''red'') \<and>
   (\<exists>errs. HabitInput strict
       [''name'' \<mapsto> PStr (str ''Run''), ''frequency'' \<mapsto> PStr (str ''daily''),
        ''color'' \<mapsto> PStr (str ''red'')] = Inl errs \<and>
      (''color'', ValueError ''Color must be a valid hex color code'') \<in> set errs) \<and>
   (\<exists>errs. Habit strict
       [''name'' \<mapsto> PStr (str ''Run''), ''frequency'' \<mapsto> PStr (str ''daily''),
        ''color'' \<mapsto> PStr (str ''red'')] = Inl errs \<and>
      (''color'', ValueError ''Color must be a valid hex color code'') \<in> set errs) \<and>
   HabitInput strict
     [''name'' \<mapsto> PStr (str ''Run''), ''frequency'' \<mapsto> PStr (str ''daily''),
      ''color'' \<mapsto> PStr (str ''#aBc123'')]
   = Inr \<lparr>name = str ''Run'', description = None, frequency = Daily, target_days = Some [],
          color = Some (str ''#aBc123''), icon = Some star\<rparr> \<and>
   re_match_color (str ''#aBc123'')"
proof -
  let ?bad = "[''name'' \<mapsto> PStr (str ''Run''), ''frequency'' \<mapsto> PStr (str ''daily''),
        ''color'' \<mapsto> PStr (str ''red'')]"
  let ?m1 = "[''name'' \<mapsto> PStr (str ''Run''), ''frequency'' \<mapsto> PStr (str ''daily''),
      ''color'' \<mapsto> PStr (str ''#aBc123'')]"
  let ?h1 = "\<lparr>name = str ''Run'', description = None, frequency = Daily, target_days = Some [],
          color = Some (str ''#aBc123''), icon = Some star\<rparr>"
  let ?m2 = "[''name'' \<mapsto> PStr (str ''Run''), ''frequency'' \<mapsto> PStr (str ''daily''),
      ''id'' \<mapsto> PStr (str ''h1''), ''user_id'' \<mapsto> PStr (str ''u1''),
      ''created_at'' \<mapsto> PDatetime (Datetime (Date 2024 1 2) 3 4 5 0),
      ''updated_at'' \<mapsto> PDatetime (Datetime (Date 2024 1 2) 3 4 5 0)]"
  let ?h2 = "\<lparr>name = str ''Run'', description = None, frequency = Daily, target_days = Some [],
          color = Some (str ''#3B82F6''), icon = Some star,
          id' = str ''h1'', user_id = str ''u1'', status = Active,
          created_at = Datetime (Date 2024 1 2) 3 4 5 0,
          updated_at = Datetime (Date 2024 1 2) 3 4 5 0\<rparr>"
  have a: "?bad ''color'' = Some (PStr (str ''red'')) \<and> str ''red'' \<noteq> [] \<and>
      \<not> re_match_color (str ''red'')"
    by (simp add: str_def)
  have b: "HabitInput strict ?m1 = Inr ?h1 \<and> color ?h1 = Some (str ''#aBc123'') \<and>
      str ''#aBc123'' \<noteq> []"
    by (simp add: HabitInput_Inr_iff field_defs)
  have c: "Habit strict ?m2 = Inr ?h2 \<and> color ?h2 = Some (str ''#3B82F6'') \<and>
      str ''#3B82F6'' \<noteq> []"
    by (simp add: Habit_Inr_iff field_defs)
  from color_rejected [where m = ?bad and s = "str ''red''" and lib = strict
      and ?m1.0 = ?m1 and ?h1.0 = ?h1 and ?c1.0 = "str ''#aBc123''"
      and ?m2.0 = ?m2 and ?h2.0 = ?h2 and ?c2.0 = "str ''#3B82F6''"] a b c
  show ?thesis by blast
qed

text \<open>
  C1 as stated fails at the empty string: it does not match the pattern, and a
  \<open>HabitInput\<close> with \<open>color = ''\<close> is constructed, keeping the empty colour.
\<close>

theorem color_empty_accepted:
  "\<not> re_match_color [] \<and>
   HabitInput strict
     [''name'' \<mapsto> PStr (str ''Run''), ''frequency'' \<mapsto> PStr (str ''daily''),
      ''color'' \<mapsto> PStr []]
   = Inr \<lparr>name = str ''Run'', description = None, frequency = Daily, target_days = Some [],
          color = Some [], icon = Some star\<rparr>"
  by (simp add: HabitInput_Inr_iff field_defs)

text \<open>
  C2. A string that matches the pattern is accepted as the colour of a \<open>HabitInput\<close> and of
  a \<open>Habit\<close>: where the construction succeeds with some colour or none, it succeeds with
  this one, and the field \<open>color\<close> of the record is that very string (the other fields are
  as before).
\<close>

theorem color_accepted:
  assumes "re_match_color s"
  shows "(HabitInput lib m = Inr h \<longrightarrow>
            HabitInput lib (m(''color'' \<mapsto> PStr s)) = Inr (h\<lparr>color := Some s\<rparr>)) \<and>
         (Habit lib m' = Inr h' \<longrightarrow>
            Habit lib (m'(''color'' \<mapsto> PStr s)) = Inr (h'\<lparr>color := Some s\<rparr>))"
  using assms by (simp add: HabitInput_Inr_iff Habit_Inr_iff HabitInput_color_str)

text \<open>
The theorem at the colour \<open>#aBc123\<close>, whose letters keep their case.
\<close>

theorem color_accepted_witness:
  "re_match_color (str ''#aBc123'') \<and>
   HabitInput strict
     [''name'' \<mapsto> PStr (str ''Run''), ''frequency'' \<mapsto> PStr (str ''daily''),
      ''color'' \<mapsto> PStr (str ''#aBc123'')]
   = Inr \<lparr>name = str ''Run'', description = None, frequency = Daily, target_days = Some [],
          color = Some (str ''#aBc123''), icon = Some star\<rparr> \<and>
   Habit strict
     [''name'' \<mapsto> PStr (str ''Run''), ''frequency'' \<mapsto> PStr (str ''daily''),
      ''id'' \<mapsto> PStr (str ''h1''), ''user_id'' \<mapsto> PStr (str ''u1''),
      ''created_at'' \<mapsto> PDatetime (Datetime (Date 2024 1 2) 3 4 5 0),
      ''updated_at'' \<mapsto> PDatetime (Datetime (Date 2024 1 2) 3 4 5 0),
      ''color'' \<mapsto> PStr (str ''#aBc123'')]
   = Inr \<lparr>name = str ''Run'', description = None, frequency = Daily, target_days = Some [],
          color = Some (str ''#aBc123''), icon = Some star,
          id' = str ''h1'', user_id = str ''u1'', status = Active,
          created_at = Datetime (Date 2024 1 2) 3 4 5 0,
          updated_at = Datetime (Date 2024 1 2) 3 4 5 0\<rparr>"
proof -
  let ?m = "[''name'' \<mapsto> PStr (str ''Run''), ''frequency'' \<mapsto> PStr (str ''daily'')]"
  let ?h = "\<lparr>name = str ''Run'', description = None, frequency = Daily, target_days = Some [],
          color = Some (str ''#3B82F6''), icon = Some star\<rparr>"
  let ?m' = "[''name'' \<mapsto> PStr (str ''Run''), ''frequency'' \<mapsto> PStr (str ''daily''),
      ''id'' \<mapsto> PStr (str ''h1''), ''user_id'' \<mapsto> PStr (str ''u1''),
      ''created_at'' \<mapsto> PDatetime (Datetime (Date 2024 1 2) 3 4 5 0),
      ''updated_at'' \<mapsto> PDatetime (Datetime (Date 2024 1 2) 3 4 5 0)]"
  let ?h' = "\<lparr>name = str ''Run'', description = None, frequency = Daily, target_days = Some [],
          color = Some (str ''#3B82F6''), icon = Some star,
          id' = str ''h1'', user_id = str ''u1'', status = Active,
          created_at = Datetime (Date 2024 1 2) 3 4 5 0,
          updated_at = Datetime (Date 2024 1 2) 3 4 5 0\<rparr>"
  have a: "re_match_color (str ''#aBc123'')"
    by (simp add: str_def hex_class_def dollar_def)
  have b: "HabitInput strict ?m = Inr ?h"
    by (simp add: HabitInput_Inr_iff field_defs)
  have c: "Habit strict ?m' = Inr ?h'"
    by (simp add: Habit_Inr_iff field_defs)
  from color_accepted [OF a, where lib = strict and m = ?m and h = ?h and m' = ?m' and h' = ?h']
    a b c
  show ?thesis by simp
qed

subsection \<open>The target days of a habit\<close>

lemma int_items_PInt: "int_items lib i (map PInt ds) = Inr ds"
  by (induction ds arbitrary: i) simp_all

lemma int_items_member:
  "int_items lib i vs = Inr ds \<Longrightarrow> v \<in> set vs \<Longrightarrow> \<exists>d \<in> set ds. int_validator lib v = Inr d"
proof (induction vs arbitrary: ds i)
  case Nil
  then show ?case by simp
next
  case (Cons a vs)
  from Cons.prems(1) obtain d js where
    a: "int_validator lib a = Inr d" and r: "int_items lib (Suc i) vs = Inr js"
    and ds: "ds = d # js"
    by (cases "int_validator lib a"; cases "int_items lib (Suc i) vs") auto
  show ?case
  proof (cases "v = a")
    case True
    with a ds show ?thesis by simp
  next
    case False
    with Cons.prems(2) have "v \<in> set vs" by simp
    from Cons.IH [OF r this] ds show ?thesis by auto
  qed
qed

lemma int_validator_Inl: "int_validator lib v = Inl e \<Longrightarrow> e = TypeError"
proof -
  have c: "coerced x = Inl e' \<Longrightarrow> e' = TypeError" for x :: "int option" and e'
    by (cases x) auto
  show "int_validator lib v = Inl e \<Longrightarrow> e = TypeError"
    by (cases v) (auto dest: c)
qed

text \<open>
  The errors of a list of items: one for each item that is refused, at its index, and no
  other.
\<close>

lemma int_items_Inl:
  "int_items lib i vs = Inl es \<Longrightarrow>
     e \<in> set es \<longleftrightarrow> (\<exists>k < length vs. isl (int_validator lib (vs ! k)) \<and> e = Item (i + k) TypeError)"
proof (induction vs arbitrary: i es)
  case Nil
  then show ?case by simp
next
  case (Cons a vs)
  have ex: "(\<exists>k < Suc n. P k) \<longleftrightarrow> P 0 \<or> (\<exists>k < n. P (Suc k))" for P n
    by (auto simp: less_Suc_eq_0_disj)
  have tail: "e \<in> set es' \<longleftrightarrow>
      (\<exists>k < length vs. isl (int_validator lib (vs ! k)) \<and> e = Item (Suc (i + k)) TypeError)"
    if "int_items lib (Suc i) vs = Inl es'" for es'
    using Cons.IH [OF that] by simp
  have none: "\<not> (\<exists>k < length vs. isl (int_validator lib (vs ! k)) \<and> Q k)"
    if "int_items lib (Suc i) vs = Inr ds" for ds Q
  proof
    assume "\<exists>k < length vs. isl (int_validator lib (vs ! k)) \<and> Q k"
    then obtain k where k: "k < length vs" "isl (int_validator lib (vs ! k))" by auto
    from int_items_member [OF that, of "vs ! k"] k(1)
    have "\<not> isl (int_validator lib (vs ! k))" by auto
    with k(2) show False by simp
  qed
  show ?case
  proof (cases "int_validator lib a")
    case a: (Inl e0)
    then have e0: "e0 = TypeError" by (rule int_validator_Inl)
    show ?thesis
    proof (cases "int_items lib (Suc i) vs")
      case (Inl es')
      with Cons.prems a have "es = Item i e0 # es'" by simp
      with tail [OF Inl] e0 a show ?thesis by (simp add: ex)
    next
      case (Inr ds)
      with Cons.prems a have "es = [Item i e0]" by simp
      with none [OF Inr, of "\<lambda>k. e = Item (Suc (i + k)) TypeError"] e0 a
      show ?thesis by (auto simp: ex)
    qed
  next
    case a: (Inr d)
    show ?thesis
    proof (cases "int_items lib (Suc i) vs")
      case (Inl es')
      with Cons.prems a have "es = es'" by simp
      with tail [OF Inl] a show ?thesis by (simp add: ex)
    next
      case (Inr ds)
      with Cons.prems a show ?thesis by simp
    qed
  qed
qed

lemma int_items_refused:
  "v \<in> set vs \<Longrightarrow> isl (int_validator lib v) \<Longrightarrow> isl (int_items lib i vs)"
  using int_items_member [of lib i vs _ v] by (cases "int_items lib i vs") auto

lemma for_day_None: "for_day ds = None \<longleftrightarrow> list_all (\<lambda>d. 0 \<le> d \<and> d \<le> 6) ds"
  by (induction ds) (auto simp: isinstance_int_def)

lemma for_day_Some:
  "for_day ds = Some e \<Longrightarrow> e = ValueError ''target_days must contain integers between 0 and 6''"
  by (induction ds) (auto split: if_splits)

lemma validate_target_days_Some:
  "validate_target_days (Some ds) =
     (if list_all (\<lambda>d. 0 \<le> d \<and> d \<le> 6) ds then Inr (Some ds)
      else Inl (ValueError ''target_days must contain integers between 0 and 6''))"
proof (cases "for_day ds")
  case None
  then show ?thesis
    by (cases ds) (auto simp: validate_target_days_def for_day_None [symmetric])
next
  case (Some e)
  then have "\<not> list_all (\<lambda>d. 0 \<le> d \<and> d \<le> 6) ds" "ds \<noteq> []"
    by (auto simp: for_day_None [symmetric])
  with Some for_day_Some [OF Some] show ?thesis
    by (simp add: validate_target_days_def)
qed

lemma HabitInput_target_days_list:
  "HabitInput_target_days lib (Some (PList vs)) =
     and_then (int_items lib 0 vs) (\<lambda>ds. single (validate_target_days (Some ds)))"
  by (cases "int_items lib 0 vs")
    (simp_all add: HabitInput_target_days_def list_int_validator_def)

lemma HabitInput_target_days_ints:
  "HabitInput_target_days lib (Some (PList (map PInt ds))) =
     (if list_all (\<lambda>d. 0 \<le> d \<and> d \<le> 6) ds then Inr (Some ds)
      else Inl [ValueError ''target_days must contain integers between 0 and 6''])"
  by (simp add: HabitInput_target_days_list int_items_PInt validate_target_days_Some)

lemma HabitInput_target_days_refused:
  assumes v: "v \<in> set vs"
    and bad: "case int_validator lib v of Inl e \<Rightarrow> True | Inr d \<Rightarrow> d < 0 \<or> 6 < d"
  shows "\<exists>es e. HabitInput_target_days lib (Some (PList vs)) = Inl es \<and> e \<in> set es \<and>
           ((\<exists>k. e = Item k TypeError) \<or>
            e = ValueError ''target_days must contain integers between 0 and 6'')"
proof (cases "int_items lib 0 vs")
  case (Inl es)
  with int_items_nonempty [of lib 0 vs] obtain e where e: "e \<in> set es"
    by (cases es) auto
  with int_items_Inl [OF Inl, of e] have "\<exists>k. e = Item k TypeError" by auto
  with Inl e show ?thesis
    by (auto simp: HabitInput_target_days_list)
next
  case (Inr ds)
  from int_items_member [OF Inr v] obtain d where d: "d \<in> set ds" "int_validator lib v = Inr d"
    by auto
  with bad have "d < 0 \<or> 6 < d" by simp
  with d(1) have "\<not> list_all (\<lambda>d. 0 \<le> d \<and> d \<le> 6) ds"
    by (force simp: list_all_iff)
  with Inr show ?thesis
    by (simp add: HabitInput_target_days_list validate_target_days_Some)
qed

lemma HabitInput_target_days_valid:
  assumes "HabitInput_target_days lib raw = Inr (Some ds)"
  shows "list_all (\<lambda>d. 0 \<le> d \<and> d \<le> 6) ds"
proof (cases raw)
  case None
  with assms show ?thesis by (auto simp: HabitInput_target_days_def)
next
  case (Some v)
  show ?thesis
  proof (cases "optional (list_int_validator lib) v")
    case (Inl e)
    with assms Some show ?thesis by (simp add: HabitInput_target_days_def)
  next
    case (Inr x)
    with assms Some have "single (validate_target_days x) = Inr (Some ds)"
      by (simp add: HabitInput_target_days_def)
    then have r: "validate_target_days x = Inr (Some ds)"
      by (cases "validate_target_days x") auto
    then have "x = Some ds"
      by (auto simp: validate_target_days_def split: if_splits option.splits)
    with r show ?thesis
      by (simp add: validate_target_days_Some split: if_splits)
  qed
qed

lemma HabitInput_target_days_fails:
  "HabitInput_target_days lib (m ''target_days'') = Inl es \<Longrightarrow> e \<in> set es \<Longrightarrow>
     \<exists>errs. HabitInput lib m = Inl errs \<and> (''target_days'', e) \<in> set errs"
  by (auto simp: HabitInput_Inl_iff in_errors_of_all errors_of_Nil errors_of_all_Nil)

lemma Habit_target_days_fails:
  "HabitInput_target_days lib (m ''target_days'') = Inl es \<Longrightarrow> e \<in> set es \<Longrightarrow>
     \<exists>errs. Habit lib m = Inl errs \<and> (''target_days'', e) \<in> set errs"
  by (auto simp: Habit_Inl_iff in_errors_of_all errors_of_Nil errors_of_all_Nil)

text \<open>
  C3, as the code has it. The validator sees the days after the field's type
  \<open>Optional[List[int]]\<close> has been applied. A list of target days with an item that the
  library refuses as an int, or whose int (the item itself when it is an int) is below 0
  or above 6, makes the construction of a \<open>HabitInput\<close> and of a \<open>Habit\<close> fail with an
  error on \<open>target_days\<close>. An item that is not an int and that the library coerces to an
  int from 0 to 6 is not rejected.
\<close>

theorem target_days_rejected:
  assumes m: "m ''target_days'' = Some (PList vs)"
    and v: "v \<in> set vs"
    and bad: "case int_validator lib v of Inl e \<Rightarrow> True | Inr d \<Rightarrow> d < 0 \<or> 6 < d"
  shows "(\<exists>errs e. HabitInput lib m = Inl errs \<and> (''target_days'', e) \<in> set errs \<and>
            ((\<exists>k. e = Item k TypeError) \<or>
             e = ValueError ''target_days must contain integers between 0 and 6'')) \<and>
         (\<exists>errs e. Habit lib m = Inl errs \<and> (''target_days'', e) \<in> set errs \<and>
            ((\<exists>k. e = Item k TypeError) \<or>
             e = ValueError ''target_days must contain integers between 0 and 6''))"
proof -
  from HabitInput_target_days_refused [OF v bad] m
  obtain es e where es: "HabitInput_target_days lib (m ''target_days'') = Inl es"
    and e: "e \<in> set es"
    and r: "(\<exists>k. e = Item k TypeError) \<or>
      e = ValueError ''target_days must contain integers between 0 and 6''"
    by auto
  from HabitInput_target_days_fails [of lib m es e] Habit_target_days_fails [of lib m es e] es e r
  show ?thesis by blast
qed

text \<open>
The theorem at the days \<open>[0, 7]\<close>.
\<close>

theorem target_days_rejected_witness:
  "(\<exists>errs e. HabitInput strict
       [''name'' \<mapsto> PStr (str ''Run''), ''frequency'' \<mapsto> PStr (str ''daily''),
        ''target_days'' \<mapsto> PList [PInt 0, PInt 7]] = Inl errs \<and>
      (''target_days'', e) \<in> set errs \<and>
      ((\<exists>k. e = Item k TypeError) \<or>
       e = ValueError ''target_days must contain integers between 0 and 6'')) \<and>
   (\<exists>errs e. Habit strict
       [''name'' \<mapsto> PStr (str ''Run''), ''frequency'' \<mapsto> PStr (str ''daily''),
        ''target_days'' \<mapsto> PList [PInt 0, PInt 7]] = Inl errs \<and>
      (''target_days'', e) \<in> set errs \<and>
      ((\<exists>k. e = Item k TypeError) \<or>
       e = ValueError ''target_days must contain integers between 0 and 6''))"
proof -
  let ?m = "[''name'' \<mapsto> PStr (str ''Run''), ''frequency'' \<mapsto> PStr (str ''daily''),
        ''target_days'' \<mapsto> PList [PInt 0, PInt 7]]"
  have m: "?m ''target_days'' = Some (PList [PInt 0, PInt 7])" by simp
  have v: "PInt 7 \<in> set [PInt 0, PInt 7]" by simp
  have bad: "case int_validator strict (PInt 7) of Inl e \<Rightarrow> True | Inr d \<Rightarrow> d < 0 \<or> 6 < d"
    by simp
  show ?thesis
    by (rule target_days_rejected [where m = ?m and vs = "[PInt 0, PInt 7]" and v = "PInt 7"
          and lib = strict, OF m v bad])
qed

text \<open>
  C3 as stated fails at \<open>target_days = ['3']\<close>: the item is a string, not an int, the
  library's default mode takes it as the int 3, and the \<open>HabitInput\<close> is constructed with
  the days \<open>[3]\<close>.
\<close>

theorem target_days_digit_string_accepted:
  "HabitInput lax
     [''name'' \<mapsto> PStr (str ''Run''), ''frequency'' \<mapsto> PStr (str ''daily''),
      ''target_days'' \<mapsto> PList [PStr (str ''3'')]]
   = Inr \<lparr>name = str ''Run'', description = None, frequency = Daily, target_days = Some [3],
          color = Some (str ''#3B82F6''), icon = Some star\<rparr>"
  by (simp add: HabitInput_Inr_iff field_defs lax_def)

text \<open>
  C4. A list of ints from 0 to 6 is accepted as the target days of a \<open>HabitInput\<close> and of a
  \<open>Habit\<close>: where the construction succeeds with some target days or none, it succeeds
  with these, and the field \<open>target_days\<close> of the record is the same list, in the same
  order.
\<close>

theorem target_days_accepted:
  assumes "list_all (\<lambda>d. 0 \<le> d \<and> d \<le> 6) ds"
  shows "(HabitInput lib m = Inr h \<longrightarrow>
            HabitInput lib (m(''target_days'' \<mapsto> PList (map PInt ds)))
              = Inr (h\<lparr>target_days := Some ds\<rparr>)) \<and>
         (Habit lib m' = Inr h' \<longrightarrow>
            Habit lib (m'(''target_days'' \<mapsto> PList (map PInt ds)))
              = Inr (h'\<lparr>target_days := Some ds\<rparr>))"
  using assms by (simp add: HabitInput_Inr_iff Habit_Inr_iff HabitInput_target_days_ints)

text \<open>
The theorem at the days \<open>[6, 0, 3, 0]\<close>: neither sorted nor deduplicated.
\<close>

theorem target_days_accepted_witness:
  "HabitInput strict
     [''name'' \<mapsto> PStr (str ''Run''), ''frequency'' \<mapsto> PStr (str ''weekly''),
      ''target_days'' \<mapsto> PList [PInt 6, PInt 0, PInt 3, PInt 0]]
   = Inr \<lparr>name = str ''Run'', description = None, frequency = Weekly,
          target_days = Some [6, 0, 3, 0], color = Some (str ''#3B82F6''),
          icon = Some star\<rparr>"
proof -
  let ?m = "[''name'' \<mapsto> PStr (str ''Run''), ''frequency'' \<mapsto> PStr (str ''weekly'')]"
  let ?h = "\<lparr>name = str ''Run'', description = None, frequency = Weekly, target_days = Some [],
          color = Some (str ''#3B82F6''), icon = Some star\<rparr>"
  have a: "list_all (\<lambda>d. 0 \<le> d \<and> d \<le> 6) [6, 0, 3, 0::int]" by simp
  have b: "HabitInput strict ?m = Inr ?h"
    by (simp add: HabitInput_Inr_iff field_defs)
  from target_days_accepted [OF a, where lib = strict and m = ?m and h = ?h] b
  show ?thesis by simp
qed

subsection \<open>Defaults\<close>

lemma default_color: "HabitInput_color lib None = Inr (Some (str ''#3B82F6''))"
  by (simp add: HabitInput_color_def)

lemma default_icon: "HabitInput_icon lib None = Inr (Some star)"
  by (simp add: HabitInput_icon_def)

lemma default_target_days: "HabitInput_target_days lib None = Inr (Some [])"
  by (simp add: HabitInput_target_days_def)

lemma default_status: "Habit_status None = Inr Active"
  by (simp add: Habit_status_def)

lemma empty_color: "HabitInput_color lib (Some (PStr [])) = Inr (Some [])"
  by (simp add: HabitInput_color_str)

lemma empty_icon: "HabitInput_icon lib (Some (PStr [])) = Inr (Some [])"
  by (simp add: HabitInput_icon_def)

lemma empty_target_days: "HabitInput_target_days lib (Some (PList [])) = Inr (Some [])"
  using HabitInput_target_days_ints [of lib "[]"] by simp

lemma Habit_status_fails:
  "Habit_status (m ''status'') = Inl e \<Longrightarrow>
     \<exists>errs. Habit lib m = Inl errs \<and> (''status'', e) \<in> set errs"
  by (auto simp: Habit_Inl_iff in_errors_of errors_of_Nil errors_of_all_Nil
      HabitInput_target_days_nonempty)

text \<open>
  C5, as the code has it. A record constructed from an input without \<open>color\<close>, \<open>icon\<close>,
  \<open>target_days\<close> or \<open>status\<close> has \<open>#3B82F6\<close>, the star, the empty list and \<open>active\<close>
  there. An empty string given as \<open>color\<close> or \<open>icon\<close> and an empty list given as
  \<open>target_days\<close> are kept, with no default in their place. An empty string given as
  \<open>status\<close> is not kept: it is none of the two values of \<open>HabitStatus\<close>, and the
  construction fails with an error on \<open>status\<close>.
\<close>

theorem defaults_and_empty_values:
  "(Habit lib m = Inr h \<longrightarrow>
      (m ''color'' = None \<longrightarrow> color h = Some (str ''#3B82F6'')) \<and>
      (m ''icon'' = None \<longrightarrow> icon h = Some star) \<and>
      (m ''target_days'' = None \<longrightarrow> target_days h = Some []) \<and>
      (m ''status'' = None \<longrightarrow> status h = Active \<and> HabitStatus_str (status h) = str ''active'') \<and>
      Habit lib (m(''color'' \<mapsto> PStr [])) = Inr (h\<lparr>color := Some []\<rparr>) \<and>
      Habit lib (m(''icon'' \<mapsto> PStr [])) = Inr (h\<lparr>icon := Some []\<rparr>) \<and>
      Habit lib (m(''target_days'' \<mapsto> PList [])) = Inr (h\<lparr>target_days := Some []\<rparr>)) \<and>
   (HabitInput lib m1 = Inr h1 \<longrightarrow>
      (m1 ''color'' = None \<longrightarrow> color h1 = Some (str ''#3B82F6'')) \<and>
      (m1 ''icon'' = None \<longrightarrow> icon h1 = Some star) \<and>
      (m1 ''target_days'' = None \<longrightarrow> target_days h1 = Some []) \<and>
      HabitInput lib (m1(''color'' \<mapsto> PStr [])) = Inr (h1\<lparr>color := Some []\<rparr>) \<and>
      HabitInput lib (m1(''icon'' \<mapsto> PStr [])) = Inr (h1\<lparr>icon := Some []\<rparr>) \<and>
      HabitInput lib (m1(''target_days'' \<mapsto> PList [])) = Inr (h1\<lparr>target_days := Some []\<rparr>)) \<and>
   (m2 ''status'' = Some (PStr []) \<longrightarrow>
      (\<exists>errs. Habit lib m2 = Inl errs \<and> (''status'', LiteralError) \<in> set errs))"
proof (intro conjI)
  show "Habit lib m = Inr h \<longrightarrow>
      (m ''color'' = None \<longrightarrow> color h = Some (str ''#3B82F6'')) \<and>
      (m ''icon'' = None \<longrightarrow> icon h = Some star) \<and>
      (m ''target_days'' = None \<longrightarrow> target_days h = Some []) \<and>
      (m ''status'' = None \<longrightarrow> status h = Active \<and> HabitStatus_str (status h) = str ''active'') \<and>
      Habit lib (m(''color'' \<mapsto> PStr [])) = Inr (h\<lparr>color := Some []\<rparr>) \<and>
      Habit lib (m(''icon'' \<mapsto> PStr [])) = Inr (h\<lparr>icon := Some []\<rparr>) \<and>
      Habit lib (m(''target_days'' \<mapsto> PList [])) = Inr (h\<lparr>target_days := Some []\<rparr>)"
    by (auto simp: Habit_Inr_iff empty_color empty_icon empty_target_days
        default_color default_icon default_target_days default_status)
  show "HabitInput lib m1 = Inr h1 \<longrightarrow>
      (m1 ''color'' = None \<longrightarrow> color h1 = Some (str ''#3B82F6'')) \<and>
      (m1 ''icon'' = None \<longrightarrow> icon h1 = Some star) \<and>
      (m1 ''target_days'' = None \<longrightarrow> target_days h1 = Some []) \<and>
      HabitInput lib (m1(''color'' \<mapsto> PStr [])) = Inr (h1\<lparr>color := Some []\<rparr>) \<and>
      HabitInput lib (m1(''icon'' \<mapsto> PStr [])) = Inr (h1\<lparr>icon := Some []\<rparr>) \<and>
      HabitInput lib (m1(''target_days'' \<mapsto> PList [])) = Inr (h1\<lparr>target_days := Some []\<rparr>)"
    by (auto simp: HabitInput_Inr_iff empty_color empty_icon empty_target_days
        default_color default_icon default_target_days)
  show "m2 ''status'' = Some (PStr []) \<longrightarrow>
      (\<exists>errs. Habit lib m2 = Inl errs \<and> (''status'', LiteralError) \<in> set errs)"
  proof
    assume "m2 ''status'' = Some (PStr [])"
    then have "Habit_status (m2 ''status'') = Inl LiteralError"
      by (simp add: Habit_status_def str_def)
    then show "\<exists>errs. Habit lib m2 = Inl errs \<and> (''status'', LiteralError) \<in> set errs"
      by (rule Habit_status_fails)
  qed
qed

text \<open>
  The theorem at a \<open>Habit\<close> and a \<open>HabitInput\<close> constructed from the required fields
  only, and at an input whose \<open>status\<close> is the empty string.
\<close>

theorem defaults_and_empty_values_witness:
  "Habit strict
     [''name'' \<mapsto> PStr (str ''Run''), ''frequency'' \<mapsto> PStr (str ''daily''),
      ''id'' \<mapsto> PStr (str ''h1''), ''user_id'' \<mapsto> PStr (str ''u1''),
      ''created_at'' \<mapsto> PDatetime (Datetime (Date 2024 1 2) 3 4 5 0),
      ''updated_at'' \<mapsto> PDatetime (Datetime (Date 2024 1 2) 3 4 5 0)]
   = Inr \<lparr>name = str ''Run'', description = None, frequency = Daily, target_days = Some [],
          color = Some (str ''#3B82F6''), icon = Some star,
          id' = str ''h1'', user_id = str ''u1'', status = Active,
          created_at = Datetime (Date 2024 1 2) 3 4 5 0,
          updated_at = Datetime (Date 2024 1 2) 3 4 5 0\<rparr> \<and>
   Habit strict
     [''name'' \<mapsto> PStr (str ''Run''), ''frequency'' \<mapsto> PStr (str ''daily''),
      ''id'' \<mapsto> PStr (str ''h1''), ''user_id'' \<mapsto> PStr (str ''u1''),
      ''created_at'' \<mapsto> PDatetime (Datetime (Date 2024 1 2) 3 4 5 0),
      ''updated_at'' \<mapsto> PDatetime (Datetime (Date 2024 1 2) 3 4 5 0),
      ''icon'' \<mapsto> PStr []]
   = Inr \<lparr>name = str ''Run'', description = None, frequency = Daily, target_days = Some [],
          color = Some (str ''#3B82F6''), icon = Some [],
          id' = str ''h1'', user_id = str ''u1'', status = Active,
          created_at = Datetime (Date 2024 1 2) 3 4 5 0,
          updated_at = Datetime (Date 2024 1 2) 3 4 5 0\<rparr> \<and>
   HabitInput strict
     [''name'' \<mapsto> PStr (str ''Run''), ''frequency'' \<mapsto> PStr (str ''daily''),
      ''target_days'' \<mapsto> PList []]
   = Inr \<lparr>name = str ''Run'', description = None, frequency = Daily, target_days = Some [],
          color = Some (str ''#3B82F6''), icon = Some star\<rparr> \<and>
   (\<exists>errs. Habit strict [''status'' \<mapsto> PStr []] = Inl errs \<and>
      (''status'', LiteralError) \<in> set errs)"
proof -
  let ?m = "[''name'' \<mapsto> PStr (str ''Run''), ''frequency'' \<mapsto> PStr (str ''daily''),
      ''id'' \<mapsto> PStr (str ''h1''), ''user_id'' \<mapsto> PStr (str ''u1''),
      ''created_at'' \<mapsto> PDatetime (Datetime (Date 2024 1 2) 3 4 5 0),
      ''updated_at'' \<mapsto> PDatetime (Datetime (Date 2024 1 2) 3 4 5 0)]"
  let ?h = "\<lparr>name = str ''Run'', description = None, frequency = Daily, target_days = Some [],
          color = Some (str ''#3B82F6''), icon = Some star,
          id' = str ''h1'', user_id = str ''u1'', status = Active,
          created_at = Datetime (Date 2024 1 2) 3 4 5 0,
          updated_at = Datetime (Date 2024 1 2) 3 4 5 0\<rparr>"
  let ?m1 = "[''name'' \<mapsto> PStr (str ''Run''), ''frequency'' \<mapsto> PStr (str ''daily'')]"
  let ?h1 = "\<lparr>name = str ''Run'', description = None, frequency = Daily, target_days = Some [],
          color = Some (str ''#3B82F6''), icon = Some star\<rparr>"
  let ?m2 = "[''status'' \<mapsto> PStr []]"
  have a: "Habit strict ?m = Inr ?h"
    by (simp add: Habit_Inr_iff field_defs)
  have a': "?m ''color'' = None \<and> ?m ''icon'' = None \<and> ?m ''target_days'' = None \<and>
      ?m ''status'' = None"
    by simp
  have b: "HabitInput strict ?m1 = Inr ?h1"
    by (simp add: HabitInput_Inr_iff field_defs)
  have c: "?m2 ''status'' = Some (PStr [])" by simp
  from defaults_and_empty_values [where lib = strict and m = ?m and h = ?h
      and ?m1.0 = ?m1 and ?h1.0 = ?h1 and ?m2.0 = ?m2] a a' b c
  show ?thesis by simp
qed

text \<open>
  C5 as stated fails at \<open>status = ''\<close>: no record keeps the empty status, the
  construction fails.
\<close>

theorem status_empty_rejected:
  "Habit strict
     [''name'' \<mapsto> PStr (str ''Run''), ''frequency'' \<mapsto> PStr (str ''daily''),
      ''id'' \<mapsto> PStr (str ''h1''), ''user_id'' \<mapsto> PStr (str ''u1''),
      ''created_at'' \<mapsto> PDatetime (Datetime (Date 2024 1 2) 3 4 5 0),
      ''updated_at'' \<mapsto> PDatetime (Datetime (Date 2024 1 2) 3 4 5 0),
      ''status'' \<mapsto> PStr []]
   = Inl [(''status'', LiteralError)]"
  by (simp add: Habit_def Let_def errors_of_def field_defs)

subsection \<open>Registration\<close>

lemma UserRegistration_password_str:
  "UserRegistration_password lib (Some (PStr p)) =
     (if length p < 8 then Inl (StringTooShort 8) else Inr p)"
  by (simp add: UserRegistration_password_def check_length_def)

lemma UserRegistration_name_str:
  "UserRegistration_name lib (Some (PStr n)) =
     (if n = [] then Inl (StringTooShort 1) else Inr n)"
  by (cases n) (simp_all add: UserRegistration_name_def check_length_def)

lemma UserRegistration_password_valid:
  "UserRegistration_password lib raw = Inr p \<Longrightarrow> 8 \<le> length p"
  by (cases raw) (auto simp: UserRegistration_password_def and_then_Inr check_length_Inr)

lemma UserRegistration_name_valid:
  "UserRegistration_name lib raw = Inr n \<Longrightarrow> n \<noteq> []"
  by (cases raw) (auto simp: UserRegistration_name_def and_then_Inr check_length_Inr)

text \<open>
  C6. A \<open>UserRegistration\<close> whose password is a string shorter than 8 (so one of length 7)
  fails with an error on \<open>password\<close>. With an address that the address check accepts, a
  password of length 8 or more and a non-empty name it succeeds. Every registration
  that was constructed has a password of length 8 or more and a non-empty name, and when
  they were given as strings these are the strings given.
\<close>

theorem UserRegistration_password_boundary:
  "(m ''password'' = Some (PStr p) \<and> length p < 8 \<longrightarrow>
      (\<exists>errs. UserRegistration lib m = Inl errs \<and> (''password'', StringTooShort 8) \<in> set errs)) \<and>
   (m1 ''email'' = Some (PStr a) \<and> validate_email lib a = Some a' \<and>
    m1 ''password'' = Some (PStr p1) \<and> 8 \<le> length p1 \<and>
    m1 ''name'' = Some (PStr n1) \<and> n1 \<noteq> [] \<longrightarrow>
      UserRegistration lib m1 = Inr \<lparr>email = a', password = p1, UserRegistration.name = n1\<rparr>) \<and>
   (UserRegistration lib m2 = Inr r \<longrightarrow>
      8 \<le> length (password r) \<and> UserRegistration.name r \<noteq> []) \<and>
   (UserRegistration lib m3 = Inr r3 \<and> m3 ''password'' = Some (PStr p3) \<and>
    m3 ''name'' = Some (PStr n3) \<longrightarrow>
      8 \<le> length p3 \<and> n3 \<noteq> [] \<and> password r3 = p3 \<and> UserRegistration.name r3 = n3)"
proof (intro conjI impI)
  assume "m ''password'' = Some (PStr p) \<and> length p < 8"
  then have "UserRegistration_password lib (m ''password'') = Inl (StringTooShort 8)"
    by (simp add: UserRegistration_password_str)
  then show "\<exists>errs. UserRegistration lib m = Inl errs \<and> (''password'', StringTooShort 8) \<in> set errs"
    by (auto simp: UserRegistration_Inl_iff in_errors_of errors_of_Nil)
next
  assume "m1 ''email'' = Some (PStr a) \<and> validate_email lib a = Some a' \<and>
    m1 ''password'' = Some (PStr p1) \<and> 8 \<le> length p1 \<and>
    m1 ''name'' = Some (PStr n1) \<and> n1 \<noteq> []"
  then show "UserRegistration lib m1 = Inr \<lparr>email = a', password = p1, UserRegistration.name = n1\<rparr>"
    by (simp add: UserRegistration_Inr_iff UserRegistration_password_str
        UserRegistration_name_str UserRegistration_email_def email_validator_def)
next
  assume a: "UserRegistration lib m2 = Inr r"
  then show "8 \<le> length (password r)"
    using UserRegistration_password_valid [of lib "m2 ''password''" "password r"]
    by (simp add: UserRegistration_Inr_iff)
  from a show "UserRegistration.name r \<noteq> []"
    using UserRegistration_name_valid [of lib "m2 ''name''" "UserRegistration.name r"]
    by (simp add: UserRegistration_Inr_iff)
next
  assume a: "UserRegistration lib m3 = Inr r3 \<and> m3 ''password'' = Some (PStr p3) \<and>
    m3 ''name'' = Some (PStr n3)"
  then have p: "UserRegistration_password lib (Some (PStr p3)) = Inr (password r3)"
    and n: "UserRegistration_name lib (Some (PStr n3)) = Inr (UserRegistration.name r3)"
    by (auto simp: UserRegistration_Inr_iff)
  from p show "8 \<le> length p3" "password r3 = p3"
    by (auto simp: UserRegistration_password_str split: if_splits)
  from n show "n3 \<noteq> []" "UserRegistration.name r3 = n3"
    by (auto simp: UserRegistration_name_str split: if_splits)
qed

text \<open>
The theorem at the passwords \<open>1234567\<close> and \<open>12345678\<close>.
\<close>

theorem UserRegistration_password_boundary_witness:
  "(\<exists>errs. UserRegistration strict
       [''email'' \<mapsto> PStr (str ''ann@example.org''), ''password'' \<mapsto> PStr (str ''1234567''),
        ''name'' \<mapsto> PStr (str ''Ann'')] = Inl errs \<and>
      (''password'', StringTooShort 8) \<in> set errs) \<and>
   UserRegistration strict
     [''email'' \<mapsto> PStr (str ''ann@example.org''), ''password'' \<mapsto> PStr (str ''12345678''),
      ''name'' \<mapsto> PStr (str ''Ann'')]
   = Inr \<lparr>email = str ''ann@example.org'', password = str ''12345678'',
          UserRegistration.name = str ''Ann''\<rparr>"
proof -
  let ?m = "[''email'' \<mapsto> PStr (str ''ann@example.org''), ''password'' \<mapsto> PStr (str ''1234567''),
        ''name'' \<mapsto> PStr (str ''Ann'')]"
  let ?m1 = "[''email'' \<mapsto> PStr (str ''ann@example.org''),
      ''password'' \<mapsto> PStr (str ''12345678''), ''name'' \<mapsto> PStr (str ''Ann'')]"
  let ?r = "\<lparr>email = str ''ann@example.org'', password = str ''12345678'',
          UserRegistration.name = str ''Ann''\<rparr>"
  have a: "?m ''password'' = Some (PStr (str ''1234567'')) \<and> length (str ''1234567'') < 8"
    by (simp add: str_def)
  have b: "?m1 ''email'' = Some (PStr (str ''ann@example.org'')) \<and>
      validate_email strict (str ''ann@example.org'') = Some (str ''ann@example.org'') \<and>
      ?m1 ''password'' = Some (PStr (str ''12345678'')) \<and> 8 \<le> length (str ''12345678'') \<and>
      ?m1 ''name'' = Some (PStr (str ''Ann'')) \<and> str ''Ann'' \<noteq> []"
    by (simp add: str_def strict_def simple_address_def)
  from UserRegistration_password_boundary [where lib = strict and m = ?m
      and p = "str ''1234567''" and ?m1.0 = ?m1 and a = "str ''ann@example.org''"
      and a' = "str ''ann@example.org''" and ?p1.0 = "str ''12345678''"
      and ?n1.0 = "str ''Ann''" and ?m2.0 = ?m1 and r = ?r and ?m3.0 = ?m1 and ?r3.0 = ?r
      and ?p3.0 = "str ''12345678''" and ?n3.0 = "str ''Ann''"] a b
  show ?thesis by blast
qed

subsection \<open>Serialising a habit and constructing it again\<close>

lemma HabitInput_name_valid:
  "HabitInput_name lib raw = Inr n \<Longrightarrow> 1 \<le> length n \<and> length n \<le> 100"
  by (cases raw) (auto simp: HabitInput_name_def and_then_Inr check_length_Inr)

lemma HabitInput_description_valid:
  "HabitInput_description lib raw = Inr (Some d) \<Longrightarrow> length d \<le> 500"
  by (cases raw)
    (auto simp: HabitInput_description_def optional_Inr_Some and_then_Inr check_length_Inr)

lemma dump_name:
  "HabitInput_name lib raw = Inr n \<Longrightarrow> HabitInput_name lib (Some (PStr n)) = Inr n"
  using HabitInput_name_valid [of lib raw n]
  by (cases n) (simp_all add: HabitInput_name_def check_length_def)

lemma dump_description:
  "HabitInput_description lib raw = Inr d \<Longrightarrow>
     HabitInput_description lib (Some (dump_optional PStr d)) = Inr d"
  using HabitInput_description_valid [of lib raw]
  by (cases d) (auto simp: HabitInput_description_def check_length_def)

lemma dump_frequency:
  "HabitInput_frequency (Some (PStr (HabitFrequency_str f))) = Inr f"
  by (cases f) (simp_all add: HabitInput_frequency_def str_def)

lemma dump_status: "Habit_status (Some (PStr (HabitStatus_str s))) = Inr s"
  by (cases s) (simp_all add: Habit_status_def str_def)

lemma dump_target_days:
  "HabitInput_target_days lib raw = Inr t \<Longrightarrow>
     HabitInput_target_days lib (Some (dump_optional (\<lambda>ds. PList (map PInt ds)) t)) = Inr t"
  using HabitInput_target_days_valid [of lib raw]
  by (cases t) (auto simp: HabitInput_target_days_ints, simp add: HabitInput_target_days_def validate_target_days_def)

lemma dump_color:
  "HabitInput_color lib raw = Inr c \<Longrightarrow>
     HabitInput_color lib (Some (dump_optional PStr c)) = Inr c"
  using HabitInput_color_valid [of lib raw]
  by (cases c) (auto simp: HabitInput_color_str, simp add: HabitInput_color_def validate_color_def)

lemma dump_icon: "HabitInput_icon lib (Some (dump_optional PStr i)) = Inr i"
  by (cases i) (simp_all add: HabitInput_icon_def)

text \<open>
  C7. A \<open>Habit\<close> that was constructed is constructed again from its own serialisation,
  and the result is the same record, field for field.
\<close>

theorem Habit_round_trip:
  assumes "Habit lib m = Inr h"
  shows "Habit lib (model_dump h) = Inr h"
proof -
  from assms have f:
    "HabitInput_name lib (m ''name'') = Inr (name h)"
    "HabitInput_description lib (m ''description'') = Inr (description h)"
    "HabitInput_target_days lib (m ''target_days'') = Inr (target_days h)"
    "HabitInput_color lib (m ''color'') = Inr (color h)"
    by (simp_all add: Habit_Inr_iff)
  show ?thesis
    unfolding Habit_Inr_iff
    by (simp add: model_dump_def dump_name [OF f(1)] dump_description [OF f(2)]
        dump_target_days [OF f(3)] dump_color [OF f(4)] dump_frequency dump_status dump_icon)
qed

text \<open>
  The theorem at a habit with every field set, one of them to \<open>None\<close>.
\<close>

theorem Habit_round_trip_witness:
  "Habit strict
     (model_dump
        \<lparr>name = str ''Run'', description = Some (str ''5 km''), frequency = Custom,
         target_days = Some [0, 2, 4], color = Some (str ''#00ff7F''), icon = None,
         id' = str ''h1'', user_id = str ''u1'', status = Archived,
         created_at = Datetime (Date 2024 1 2) 3 4 5 0,
         updated_at = Datetime (Date 2024 6 7) 8 9 10 11\<rparr>)
   = Inr \<lparr>name = str ''Run'', description = Some (str ''5 km''), frequency = Custom,
          target_days = Some [0, 2, 4], color = Some (str ''#00ff7F''), icon = None,
          id' = str ''h1'', user_id = str ''u1'', status = Archived,
          created_at = Datetime (Date 2024 1 2) 3 4 5 0,
          updated_at = Datetime (Date 2024 6 7) 8 9 10 11\<rparr>"
proof -
  let ?m = "[''name'' \<mapsto> PStr (str ''Run''), ''description'' \<mapsto> PStr (str ''5 km''),
      ''frequency'' \<mapsto> PStr (str ''custom''),
      ''target_days'' \<mapsto> PList [PInt 0, PInt 2, PInt 4],
      ''color'' \<mapsto> PStr (str ''#00ff7F''), ''icon'' \<mapsto> PNone,
      ''id'' \<mapsto> PStr (str ''h1''), ''user_id'' \<mapsto> PStr (str ''u1''),
      ''status'' \<mapsto> PStr (str ''archived''),
      ''created_at'' \<mapsto> PDatetime (Datetime (Date 2024 1 2) 3 4 5 0),
      ''updated_at'' \<mapsto> PDatetime (Datetime (Date 2024 6 7) 8 9 10 11)]"
  have "Habit strict ?m
      = Inr \<lparr>name = str ''Run'', description = Some (str ''5 km''), frequency = Custom,
          target_days = Some [0, 2, 4], color = Some (str ''#00ff7F''), icon = None,
          id' = str ''h1'', user_id = str ''u1'', status = Archived,
          created_at = Datetime (Date 2024 1 2) 3 4 5 0,
          updated_at = Datetime (Date 2024 6 7) 8 9 10 11\<rparr>"
    by (simp add: Habit_Inr_iff field_defs)
  then show ?thesis by (rule Habit_round_trip)
qed

subsection \<open>All or nothing\<close>

text \<open>
  What each field of a model with constraints accepts and what it refuses, in terms of
  the value that the field's type gives for the input: a constraint of the source is
  checked on that value, and only when the type accepted the input.
\<close>

lemma HabitInput_name_Inr:
  "HabitInput_name lib raw = Inr n \<longleftrightarrow>
     required (str_validator lib) raw = Inr n \<and> 1 \<le> length n \<and> length n \<le> 100"
  by (cases raw; cases "str_validator lib (the raw)")
    (auto simp: HabitInput_name_def check_length_def Suc_le_eq split: if_splits)

lemma HabitInput_name_Inl:
  "HabitInput_name lib raw = Inl e \<longleftrightarrow>
     required (str_validator lib) raw = Inl e \<or>
     (\<exists>s. required (str_validator lib) raw = Inr s \<and>
          (s = [] \<and> e = StringTooShort 1 \<or> 100 < length s \<and> e = StringTooLong 100))"
  by (cases raw; cases "str_validator lib (the raw)")
    (auto simp: HabitInput_name_def check_length_def split: if_splits)

lemma optional_and_then:
  "optional (\<lambda>v. and_then (f v) g) v =
     and_then (optional f v)
       (\<lambda>x. case x of None \<Rightarrow> Inr None | Some s \<Rightarrow> and_then (g s) (\<lambda>y. Inr (Some y)))"
  by (cases v; cases "f v") simp_all

lemma HabitInput_description_Inr:
  "HabitInput_description lib raw = Inr d \<longleftrightarrow>
     with_default None (optional (str_validator lib)) raw = Inr d \<and>
     (case d of None \<Rightarrow> True | Some s \<Rightarrow> length s \<le> 500)"
  by (cases raw; cases "optional (str_validator lib) (the raw)")
    (auto simp: HabitInput_description_def optional_and_then check_length_def
      split: if_splits option.splits)

lemma HabitInput_description_Inl:
  "HabitInput_description lib raw = Inl e \<longleftrightarrow>
     with_default None (optional (str_validator lib)) raw = Inl e \<or>
     (\<exists>s. with_default None (optional (str_validator lib)) raw = Inr (Some s) \<and>
          500 < length s \<and> e = StringTooLong 500)"
  by (cases raw; cases "optional (str_validator lib) (the raw)")
    (auto simp: HabitInput_description_def optional_and_then check_length_def
      split: if_splits option.splits)

lemma HabitInput_frequency_Inr:
  "HabitInput_frequency raw = Inr f \<longleftrightarrow> raw = Some (PStr (HabitFrequency_str f))"
proof (cases raw)
  case None
  then show ?thesis by (simp add: HabitInput_frequency_def)
next
  case (Some v)
  then show ?thesis
    by (cases v; cases f) (auto simp: HabitInput_frequency_def str_def)
qed

lemma HabitInput_frequency_Inl:
  "HabitInput_frequency raw = Inl e \<longleftrightarrow>
     raw = None \<and> e = Missing \<or>
     (\<exists>v. raw = Some v \<and> v \<noteq> PStr (str ''daily'') \<and> v \<noteq> PStr (str ''weekly'') \<and>
          v \<noteq> PStr (str ''custom'') \<and> e = LiteralError)"
proof (cases raw)
  case None
  then show ?thesis by (auto simp: HabitInput_frequency_def)
next
  case (Some v)
  then show ?thesis
    by (cases v) (auto simp: HabitInput_frequency_def)
qed

lemma Habit_status_Inr:
  "Habit_status raw = Inr s \<longleftrightarrow>
     raw = None \<and> s = Active \<or> raw = Some (PStr (HabitStatus_str s))"
proof (cases raw)
  case None
  then show ?thesis by (auto simp: Habit_status_def)
next
  case (Some v)
  then show ?thesis
    by (cases v; cases s) (auto simp: Habit_status_def str_def)
qed

lemma Habit_status_Inl:
  "Habit_status raw = Inl e \<longleftrightarrow>
     (\<exists>v. raw = Some v \<and> v \<noteq> PStr (str ''active'') \<and> v \<noteq> PStr (str ''archived'') \<and>
          e = LiteralError)"
proof (cases raw)
  case None
  then show ?thesis by (auto simp: Habit_status_def)
next
  case (Some v)
  then show ?thesis
    by (cases v) (auto simp: Habit_status_def)
qed

lemma validate_target_days_cases:
  "validate_target_days t =
     (case t of
        None \<Rightarrow> Inr None
      | Some ds \<Rightarrow>
          if list_all (\<lambda>d. 0 \<le> d \<and> d \<le> 6) ds then Inr (Some ds)
          else Inl (ValueError ''target_days must contain integers between 0 and 6''))"
  by (cases t) (simp_all add: validate_target_days_Some, simp add: validate_target_days_def)

lemma HabitInput_target_days_Inr:
  "HabitInput_target_days lib raw = Inr t \<longleftrightarrow>
     with_default (Some []) (optional (list_int_validator lib)) raw = Inr t \<and>
     (case t of None \<Rightarrow> True | Some ds \<Rightarrow> list_all (\<lambda>d. 0 \<le> d \<and> d \<le> 6) ds)"
  by (cases raw; cases "optional (list_int_validator lib) (the raw)")
    (auto simp: HabitInput_target_days_def validate_target_days_cases
      split: if_splits option.splits)

lemma HabitInput_target_days_Inl:
  "HabitInput_target_days lib raw = Inl es \<longleftrightarrow>
     with_default (Some []) (optional (list_int_validator lib)) raw = Inl es \<or>
     (\<exists>ds. with_default (Some []) (optional (list_int_validator lib)) raw = Inr (Some ds) \<and>
           \<not> list_all (\<lambda>d. 0 \<le> d \<and> d \<le> 6) ds \<and>
           es = [ValueError ''target_days must contain integers between 0 and 6''])"
  by (cases raw; cases "optional (list_int_validator lib) (the raw)")
    (auto simp: HabitInput_target_days_def validate_target_days_cases
      split: if_splits option.splits)

lemma validate_color_cases:
  "validate_color c =
     (case c of
        None \<Rightarrow> Inr None
      | Some s \<Rightarrow>
          if s \<noteq> [] \<and> \<not> re_match_color s
          then Inl (ValueError ''Color must be a valid hex color code'')
          else Inr (Some s))"
  by (cases c) (simp_all add: validate_color_def)

lemma HabitInput_color_Inr:
  "HabitInput_color lib raw = Inr c \<longleftrightarrow>
     with_default (Some (str ''#3B82F6'')) (optional (str_validator lib)) raw = Inr c \<and>
     (case c of None \<Rightarrow> True | Some s \<Rightarrow> s = [] \<or> re_match_color s)"
  by (cases raw; cases "optional (str_validator lib) (the raw)")
    (auto simp: HabitInput_color_def validate_color_cases re_match_default
      split: if_splits option.splits)

lemma HabitInput_color_Inl:
  "HabitInput_color lib raw = Inl e \<longleftrightarrow>
     with_default (Some (str ''#3B82F6'')) (optional (str_validator lib)) raw = Inl e \<or>
     (\<exists>s. with_default (Some (str ''#3B82F6'')) (optional (str_validator lib)) raw = Inr (Some s) \<and>
          s \<noteq> [] \<and> \<not> re_match_color s \<and> e = ValueError ''Color must be a valid hex color code'')"
  using re_match_default
  by (cases raw; cases "optional (str_validator lib) (the raw)")
    (auto simp: HabitInput_color_def validate_color_cases
      split: if_splits option.splits)

lemma target_days_items:
  assumes "raw = Some (PList vs)"
  shows "(\<exists>es. HabitInput_target_days lib raw = Inl es \<and> Item k TypeError \<in> set es) \<longleftrightarrow>
         k < length vs \<and> isl (int_validator lib (vs ! k))"
proof (cases "int_items lib 0 vs")
  case (Inl es)
  with assms have "HabitInput_target_days lib raw = Inl es"
    by (simp add: HabitInput_target_days_list)
  with int_items_Inl [OF Inl, of "Item k TypeError"] show ?thesis by auto
next
  case (Inr ds)
  have "\<not> isl (int_validator lib (vs ! k))" if "k < length vs"
    using int_items_member [OF Inr, of "vs ! k"] that by auto
  moreover have "Item k TypeError \<notin> set es" if "HabitInput_target_days lib raw = Inl es" for es
    using that assms Inr
    by (auto simp: HabitInput_target_days_list validate_target_days_Some split: if_splits)
  ultimately show ?thesis by auto
qed

lemma UserRegistration_password_Inr:
  "UserRegistration_password lib raw = Inr p \<longleftrightarrow>
     required (str_validator lib) raw = Inr p \<and> 8 \<le> length p"
  by (cases raw; cases "str_validator lib (the raw)")
    (auto simp: UserRegistration_password_def check_length_def split: if_splits)

lemma UserRegistration_password_Inl:
  "UserRegistration_password lib raw = Inl e \<longleftrightarrow>
     required (str_validator lib) raw = Inl e \<or>
     (\<exists>s. required (str_validator lib) raw = Inr s \<and> length s < 8 \<and> e = StringTooShort 8)"
  by (cases raw; cases "str_validator lib (the raw)")
    (auto simp: UserRegistration_password_def check_length_def split: if_splits)

lemma UserRegistration_name_Inr:
  "UserRegistration_name lib raw = Inr n \<longleftrightarrow>
     required (str_validator lib) raw = Inr n \<and> 1 \<le> length n"
  by (cases raw; cases "str_validator lib (the raw)")
    (auto simp: UserRegistration_name_def check_length_def Suc_le_eq split: if_splits)

lemma UserRegistration_name_Inl:
  "UserRegistration_name lib raw = Inl e \<longleftrightarrow>
     required (str_validator lib) raw = Inl e \<or>
     (\<exists>s. required (str_validator lib) raw = Inr s \<and> s = [] \<and> e = StringTooShort 1)"
  by (cases raw; cases "str_validator lib (the raw)")
    (auto simp: UserRegistration_name_def check_length_def split: if_splits)

lemma HabitInput_target_days_Inl_mem:
  "(\<exists>es. HabitInput_target_days lib raw = Inl es \<and> e \<in> set es) \<longleftrightarrow>
     (\<exists>es. with_default (Some []) (optional (list_int_validator lib)) raw = Inl es \<and>
           e \<in> set es) \<or>
     (\<exists>ds. with_default (Some []) (optional (list_int_validator lib)) raw = Inr (Some ds) \<and>
           \<not> list_all (\<lambda>d. 0 \<le> d \<and> d \<le> 6) ds \<and>
           e = ValueError ''target_days must contain integers between 0 and 6'')"
  by (auto simp: HabitInput_target_days_Inl)

lemma HabitInput_errors:
  assumes "HabitInput lib m = Inl errs"
  shows "errs \<noteq> []"
    and "(f, e) \<in> set errs \<longleftrightarrow>
         f = ''name'' \<and> HabitInput_name lib (m ''name'') = Inl e \<or>
         f = ''description'' \<and> HabitInput_description lib (m ''description'') = Inl e \<or>
         f = ''frequency'' \<and> HabitInput_frequency (m ''frequency'') = Inl e \<or>
         f = ''target_days'' \<and>
           (\<exists>es. HabitInput_target_days lib (m ''target_days'') = Inl es \<and> e \<in> set es) \<or>
         f = ''color'' \<and> HabitInput_color lib (m ''color'') = Inl e \<or>
         f = ''icon'' \<and> HabitInput_icon lib (m ''icon'') = Inl e"
  using assms by (auto simp: HabitInput_Inl_iff in_errors_of in_errors_of_all)

lemma Habit_errors:
  assumes "Habit lib m = Inl errs"
  shows "errs \<noteq> []"
    and "(f, e) \<in> set errs \<longleftrightarrow>
         f = ''name'' \<and> HabitInput_name lib (m ''name'') = Inl e \<or>
         f = ''description'' \<and> HabitInput_description lib (m ''description'') = Inl e \<or>
         f = ''frequency'' \<and> HabitInput_frequency (m ''frequency'') = Inl e \<or>
         f = ''target_days'' \<and>
           (\<exists>es. HabitInput_target_days lib (m ''target_days'') = Inl es \<and> e \<in> set es) \<or>
         f = ''color'' \<and> HabitInput_color lib (m ''color'') = Inl e \<or>
         f = ''icon'' \<and> HabitInput_icon lib (m ''icon'') = Inl e \<or>
         f = ''id'' \<and> required (str_validator lib) (m ''id'') = Inl e \<or>
         f = ''user_id'' \<and> required (str_validator lib) (m ''user_id'') = Inl e \<or>
         f = ''status'' \<and> Habit_status (m ''status'') = Inl e \<or>
         f = ''created_at'' \<and> required (datetime_validator lib) (m ''created_at'') = Inl e \<or>
         f = ''updated_at'' \<and> required (datetime_validator lib) (m ''updated_at'') = Inl e"
  using assms by (auto simp: Habit_Inl_iff in_errors_of in_errors_of_all)

lemma User_Inr_iff:
  "User lib m = Inr u \<longleftrightarrow>
     required (str_validator lib) (m ''id'') = Inr (User.id' u) \<and>
     required (email_validator lib) (m ''email'') = Inr (User.email u) \<and>
     required (str_validator lib) (m ''name'') = Inr (User.name u) \<and>
     required (datetime_validator lib) (m ''created_at'') = Inr (User.created_at u) \<and>
     required (datetime_validator lib) (m ''updated_at'') = Inr (User.updated_at u)"
  by (cases u)
    (auto simp: User_def Let_def errors_of_Nil errors_of_all_Nil Inr_iff)

lemma User_Inl_iff:
  "User lib m = Inl errs \<longleftrightarrow>
     errs \<noteq> [] \<and>
     errs =
          errors_of ''id'' (required (str_validator lib) (m ''id'')) @
          errors_of ''email'' (required (email_validator lib) (m ''email'')) @
          errors_of ''name'' (required (str_validator lib) (m ''name'')) @
          errors_of ''created_at'' (required (datetime_validator lib) (m ''created_at'')) @
          errors_of ''updated_at'' (required (datetime_validator lib) (m ''updated_at''))"
  by (auto simp: User_def Let_def)

lemma User_errors:
  assumes "User lib m = Inl errs"
  shows "errs \<noteq> []"
    and "(f, e) \<in> set errs \<longleftrightarrow>
         f = ''id'' \<and> required (str_validator lib) (m ''id'') = Inl e \<or>
         f = ''email'' \<and> required (email_validator lib) (m ''email'') = Inl e \<or>
         f = ''name'' \<and> required (str_validator lib) (m ''name'') = Inl e \<or>
         f = ''created_at'' \<and> required (datetime_validator lib) (m ''created_at'') = Inl e \<or>
         f = ''updated_at'' \<and> required (datetime_validator lib) (m ''updated_at'') = Inl e"
  using assms by (auto simp: User_Inl_iff in_errors_of in_errors_of_all)

lemma User_validator_nonempty: "required_all (User_validator lib) raw \<noteq> Inl []"
proof (cases raw)
  case None
  then show ?thesis by simp
next
  case (Some v)
  have "User_validator lib v \<noteq> Inl []"
    by (cases v) (auto simp: User_Inl_iff split: sum.splits)
  with Some show ?thesis by simp
qed

lemma UserRegistration_errors:
  assumes "UserRegistration lib m = Inl errs"
  shows "errs \<noteq> []"
    and "(f, e) \<in> set errs \<longleftrightarrow>
         f = ''email'' \<and> UserRegistration_email lib (m ''email'') = Inl e \<or>
         f = ''password'' \<and> UserRegistration_password lib (m ''password'') = Inl e \<or>
         f = ''name'' \<and> UserRegistration_name lib (m ''name'') = Inl e"
  using assms by (auto simp: UserRegistration_Inl_iff in_errors_of in_errors_of_all)

lemma UserLogin_Inr_iff:
  "UserLogin lib m = Inr l \<longleftrightarrow>
     required (email_validator lib) (m ''email'') = Inr (UserLogin.email l) \<and>
     required (str_validator lib) (m ''password'') = Inr (UserLogin.password l)"
  by (cases l)
    (auto simp: UserLogin_def Let_def errors_of_Nil errors_of_all_Nil Inr_iff)

lemma UserLogin_Inl_iff:
  "UserLogin lib m = Inl errs \<longleftrightarrow>
     errs \<noteq> [] \<and>
     errs =
          errors_of ''email'' (required (email_validator lib) (m ''email'')) @
          errors_of ''password'' (required (str_validator lib) (m ''password''))"
  by (auto simp: UserLogin_def Let_def)

lemma UserLogin_errors:
  assumes "UserLogin lib m = Inl errs"
  shows "errs \<noteq> []"
    and "(f, e) \<in> set errs \<longleftrightarrow>
         f = ''email'' \<and> required (email_validator lib) (m ''email'') = Inl e \<or>
         f = ''password'' \<and> required (str_validator lib) (m ''password'') = Inl e"
  using assms by (auto simp: UserLogin_Inl_iff in_errors_of in_errors_of_all)

lemma AuthResponse_Inr_iff:
  "AuthResponse lib m = Inr a \<longleftrightarrow>
     required_all (User_validator lib) (m ''user'') = Inr (AuthResponse.user a) \<and>
     required (str_validator lib) (m ''token'') = Inr (AuthResponse.token a)"
  by (cases a)
    (auto simp: AuthResponse_def Let_def errors_of_Nil errors_of_all_Nil Inr_iff User_validator_nonempty)

lemma AuthResponse_Inl_iff:
  "AuthResponse lib m = Inl errs \<longleftrightarrow>
     errs \<noteq> [] \<and>
     errs =
          errors_of_all ''user'' (required_all (User_validator lib) (m ''user'')) @
          errors_of ''token'' (required (str_validator lib) (m ''token''))"
  by (auto simp: AuthResponse_def Let_def)

lemma AuthResponse_errors:
  assumes "AuthResponse lib m = Inl errs"
  shows "errs \<noteq> []"
    and "(f, e) \<in> set errs \<longleftrightarrow>
         f = ''user'' \<and>
           (\<exists>es. required_all (User_validator lib) (m ''user'') = Inl es \<and> e \<in> set es) \<or>
         f = ''token'' \<and> required (str_validator lib) (m ''token'') = Inl e"
  using assms by (auto simp: AuthResponse_Inl_iff in_errors_of in_errors_of_all)

lemma CompletionInput_Inr_iff:
  "CompletionInput lib m = Inr c \<longleftrightarrow>
     required (date_validator lib) (m ''date'') = Inr (CompletionInput.date c) \<and>
     with_default None (optional (str_validator lib)) (m ''notes'') = Inr (CompletionInput.notes' c)"
  by (cases c)
    (auto simp: CompletionInput_def Let_def errors_of_Nil errors_of_all_Nil Inr_iff)

lemma CompletionInput_Inl_iff:
  "CompletionInput lib m = Inl errs \<longleftrightarrow>
     errs \<noteq> [] \<and>
     errs =
          errors_of ''date'' (required (date_validator lib) (m ''date'')) @
          errors_of ''notes'' (with_default None (optional (str_validator lib)) (m ''notes''))"
  by (auto simp: CompletionInput_def Let_def)

lemma CompletionInput_errors:
  assumes "CompletionInput lib m = Inl errs"
  shows "errs \<noteq> []"
    and "(f, e) \<in> set errs \<longleftrightarrow>
         f = ''date'' \<and> required (date_validator lib) (m ''date'') = Inl e \<or>
         f = ''notes'' \<and> with_default None (optional (str_validator lib)) (m ''notes'') = Inl e"
  using assms by (auto simp: CompletionInput_Inl_iff in_errors_of in_errors_of_all)

lemma Completion_Inr_iff:
  "Completion lib m = Inr c \<longleftrightarrow>
     required (str_validator lib) (m ''id'') = Inr (Completion.id' c) \<and>
     required (str_validator lib) (m ''habit_id'') = Inr (Completion.habit_id c) \<and>
     required (date_validator lib) (m ''date'') = Inr (Completion.date c) \<and>
     required (optional (str_validator lib)) (m ''notes'') = Inr (Completion.notes' c) \<and>
     required (datetime_validator lib) (m ''created_at'') = Inr (Completion.created_at c)"
  by (cases c)
    (auto simp: Completion_def Let_def errors_of_Nil errors_of_all_Nil Inr_iff)

lemma Completion_Inl_iff:
  "Completion lib m = Inl errs \<longleftrightarrow>
     errs \<noteq> [] \<and>
     errs =
          errors_of ''id'' (required (str_validator lib) (m ''id'')) @
          errors_of ''habit_id'' (required (str_validator lib) (m ''habit_id'')) @
          errors_of ''date'' (required (date_validator lib) (m ''date'')) @
          errors_of ''notes'' (required (optional (str_validator lib)) (m ''notes'')) @
          errors_of ''created_at'' (required (datetime_validator lib) (m ''created_at''))"
  by (auto simp: Completion_def Let_def)

lemma Completion_errors:
  assumes "Completion lib m = Inl errs"
  shows "errs \<noteq> []"
    and "(f, e) \<in> set errs \<longleftrightarrow>
         f = ''id'' \<and> required (str_validator lib) (m ''id'') = Inl e \<or>
         f = ''habit_id'' \<and> required (str_validator lib) (m ''habit_id'') = Inl e \<or>
         f = ''date'' \<and> required (date_validator lib) (m ''date'') = Inl e \<or>
         f = ''notes'' \<and> required (optional (str_validator lib)) (m ''notes'') = Inl e \<or>
         f = ''created_at'' \<and> required (datetime_validator lib) (m ''created_at'') = Inl e"
  using assms by (auto simp: Completion_Inl_iff in_errors_of in_errors_of_all)

lemma HabitStatistics_Inr_iff:
  "HabitStatistics lib m = Inr s \<longleftrightarrow>
     required (str_validator lib) (m ''habit_id'') = Inr (HabitStatistics.habit_id s) \<and>
     required (int_validator lib) (m ''current_streak'') = Inr (current_streak s) \<and>
     required (int_validator lib) (m ''longest_streak'') = Inr (longest_streak s) \<and>
     required (int_validator lib) (m ''total_completions'') = Inr (total_completions s) \<and>
     required (float_validator lib) (m ''completion_rate'') = Inr (completion_rate s) \<and>
     required (optional (date_validator lib)) (m ''last_completed_date'') = Inr (last_completed_date s)"
  by (cases s)
    (auto simp: HabitStatistics_def Let_def errors_of_Nil errors_of_all_Nil Inr_iff)

lemma HabitStatistics_Inl_iff:
  "HabitStatistics lib m = Inl errs \<longleftrightarrow>
     errs \<noteq> [] \<and>
     errs =
          errors_of ''habit_id'' (required (str_validator lib) (m ''habit_id'')) @
          errors_of ''current_streak'' (required (int_validator lib) (m ''current_streak'')) @
          errors_of ''longest_streak'' (required (int_validator lib) (m ''longest_streak'')) @
          errors_of ''total_completions'' (required (int_validator lib) (m ''total_completions'')) @
          errors_of ''completion_rate'' (required (float_validator lib) (m ''completion_rate'')) @
          errors_of ''last_completed_date'' (required (optional (date_validator lib)) (m ''last_completed_date''))"
  by (auto simp: HabitStatistics_def Let_def)

lemma HabitStatistics_errors:
  assumes "HabitStatistics lib m = Inl errs"
  shows "errs \<noteq> []"
    and "(f, e) \<in> set errs \<longleftrightarrow>
         f = ''habit_id'' \<and> required (str_validator lib) (m ''habit_id'') = Inl e \<or>
         f = ''current_streak'' \<and> required (int_validator lib) (m ''current_streak'') = Inl e \<or>
         f = ''longest_streak'' \<and> required (int_validator lib) (m ''longest_streak'') = Inl e \<or>
         f = ''total_completions'' \<and> required (int_validator lib) (m ''total_completions'') = Inl e \<or>
         f = ''completion_rate'' \<and> required (float_validator lib) (m ''completion_rate'') = Inl e \<or>
         f = ''last_completed_date'' \<and> required (optional (date_validator lib)) (m ''last_completed_date'') = Inl e"
  using assms by (auto simp: HabitStatistics_Inl_iff in_errors_of in_errors_of_all)

lemma ApiError_Inr_iff:
  "ApiError lib m = Inr a \<longleftrightarrow>
     required (str_validator lib) (m ''error'') = Inr (ApiError.error a) \<and>
     required (str_validator lib) (m ''message'') = Inr (ApiError.message a) \<and>
     required (int_validator lib) (m ''status_code'') = Inr (status_code a)"
  by (cases a)
    (auto simp: ApiError_def Let_def errors_of_Nil errors_of_all_Nil Inr_iff)

lemma ApiError_Inl_iff:
  "ApiError lib m = Inl errs \<longleftrightarrow>
     errs \<noteq> [] \<and>
     errs =
          errors_of ''error'' (required (str_validator lib) (m ''error'')) @
          errors_of ''message'' (required (str_validator lib) (m ''message'')) @
          errors_of ''status_code'' (required (int_validator lib) (m ''status_code''))"
  by (auto simp: ApiError_def Let_def)

lemma ApiError_errors:
  assumes "ApiError lib m = Inl errs"
  shows "errs \<noteq> []"
    and "(f, e) \<in> set errs \<longleftrightarrow>
         f = ''error'' \<and> required (str_validator lib) (m ''error'') = Inl e \<or>
         f = ''message'' \<and> required (str_validator lib) (m ''message'') = Inl e \<or>
         f = ''status_code'' \<and> required (int_validator lib) (m ''status_code'') = Inl e"
  using assms by (auto simp: ApiError_Inl_iff in_errors_of in_errors_of_all)

lemma HealthResponse_Inr_iff:
  "HealthResponse lib m = Inr r \<longleftrightarrow>
     required (str_validator lib) (m ''status'') = Inr (HealthResponse.status r) \<and>
     required (datetime_validator lib) (m ''timestamp'') = Inr (timestamp r) \<and>
     required (str_validator lib) (m ''version'') = Inr (version r)"
  by (cases r)
    (auto simp: HealthResponse_def Let_def errors_of_Nil errors_of_all_Nil Inr_iff)

lemma HealthResponse_Inl_iff:
  "HealthResponse lib m = Inl errs \<longleftrightarrow>
     errs \<noteq> [] \<and>
     errs =
          errors_of ''status'' (required (str_validator lib) (m ''status'')) @
          errors_of ''timestamp'' (required (datetime_validator lib) (m ''timestamp'')) @
          errors_of ''version'' (required (str_validator lib) (m ''version''))"
  by (auto simp: HealthResponse_def Let_def)

lemma HealthResponse_errors:
  assumes "HealthResponse lib m = Inl errs"
  shows "errs \<noteq> []"
    and "(f, e) \<in> set errs \<longleftrightarrow>
         f = ''status'' \<and> required (str_validator lib) (m ''status'') = Inl e \<or>
         f = ''timestamp'' \<and> required (datetime_validator lib) (m ''timestamp'') = Inl e \<or>
         f = ''version'' \<and> required (str_validator lib) (m ''version'') = Inl e"
  using assms by (auto simp: HealthResponse_Inl_iff in_errors_of in_errors_of_all)

lemma HelloResponse_Inr_iff:
  "HelloResponse lib m = Inr r \<longleftrightarrow>
     required (str_validator lib) (m ''message'') = Inr (HelloResponse.message r)"
  by (cases r)
    (auto simp: HelloResponse_def Let_def errors_of_Nil errors_of_all_Nil Inr_iff)

lemma HelloResponse_Inl_iff:
  "HelloResponse lib m = Inl errs \<longleftrightarrow>
     errs \<noteq> [] \<and>
     errs =
          errors_of ''message'' (required (str_validator lib) (m ''message''))"
  by (auto simp: HelloResponse_def Let_def)

lemma HelloResponse_errors:
  assumes "HelloResponse lib m = Inl errs"
  shows "errs \<noteq> []"
    and "(f, e) \<in> set errs \<longleftrightarrow>
         f = ''message'' \<and> required (str_validator lib) (m ''message'') = Inl e"
  using assms by (auto simp: HelloResponse_Inl_iff in_errors_of in_errors_of_all)

lemma ListHabitsQuery_Inr_iff:
  "ListHabitsQuery lib m = Inr q \<longleftrightarrow>
     with_default None (optional HabitStatus_validator) (m ''status'') = Inr (ListHabitsQuery.status q)"
  by (cases q)
    (auto simp: ListHabitsQuery_def Let_def errors_of_Nil errors_of_all_Nil Inr_iff)

lemma ListHabitsQuery_Inl_iff:
  "ListHabitsQuery lib m = Inl errs \<longleftrightarrow>
     errs \<noteq> [] \<and>
     errs =
          errors_of ''status'' (with_default None (optional HabitStatus_validator) (m ''status''))"
  by (auto simp: ListHabitsQuery_def Let_def)

lemma ListHabitsQuery_errors:
  assumes "ListHabitsQuery lib m = Inl errs"
  shows "errs \<noteq> []"
    and "(f, e) \<in> set errs \<longleftrightarrow>
         f = ''status'' \<and> with_default None (optional HabitStatus_validator) (m ''status'') = Inl e"
  using assms by (auto simp: ListHabitsQuery_Inl_iff in_errors_of in_errors_of_all)

lemma ListCompletionsQuery_Inr_iff:
  "ListCompletionsQuery lib m = Inr q \<longleftrightarrow>
     with_default None (optional (date_validator lib)) (m ''start_date'') = Inr (start_date q) \<and>
     with_default None (optional (date_validator lib)) (m ''end_date'') = Inr (end_date q)"
  by (cases q)
    (auto simp: ListCompletionsQuery_def Let_def errors_of_Nil errors_of_all_Nil Inr_iff)

lemma ListCompletionsQuery_Inl_iff:
  "ListCompletionsQuery lib m = Inl errs \<longleftrightarrow>
     errs \<noteq> [] \<and>
     errs =
          errors_of ''start_date'' (with_default None (optional (date_validator lib)) (m ''start_date'')) @
          errors_of ''end_date'' (with_default None (optional (date_validator lib)) (m ''end_date''))"
  by (auto simp: ListCompletionsQuery_def Let_def)

lemma ListCompletionsQuery_errors:
  assumes "ListCompletionsQuery lib m = Inl errs"
  shows "errs \<noteq> []"
    and "(f, e) \<in> set errs \<longleftrightarrow>
         f = ''start_date'' \<and> with_default None (optional (date_validator lib)) (m ''start_date'') = Inl e \<or>
         f = ''end_date'' \<and> with_default None (optional (date_validator lib)) (m ''end_date'') = Inl e"
  using assms by (auto simp: ListCompletionsQuery_Inl_iff in_errors_of in_errors_of_all)

lemma HabitInput_items:
  assumes "HabitInput lib m = Inl errs" and "m ''target_days'' = Some (PList vs)"
  shows "(''target_days'', Item k TypeError) \<in> set errs \<longleftrightarrow>
         k < length vs \<and> isl (int_validator lib (vs ! k))"
  using target_days_items [OF assms(2), of lib k]
  by (simp add: HabitInput_errors(2) [OF assms(1)])

lemma Habit_items:
  assumes "Habit lib m = Inl errs" and "m ''target_days'' = Some (PList vs)"
  shows "(''target_days'', Item k TypeError) \<in> set errs \<longleftrightarrow>
         k < length vs \<and> isl (int_validator lib (vs ! k))"
  using target_days_items [OF assms(2), of lib k]
  by (simp add: Habit_errors(2) [OF assms(1)])

lemma AuthResponse_nested:
  assumes "AuthResponse lib m = Inl errs" and "m ''user'' = Some (PDict items)"
  shows "(''user'', Within g e) \<in> set errs \<longleftrightarrow>
         (\<exists>es. User lib (map_of items) = Inl es \<and> (g, e) \<in> set es)"
  using assms(2)
  by (cases "User lib (map_of items)")
    (force simp: AuthResponse_errors(2) [OF assms(1)])+



text \<open>A mapping given as \<open>user\<close>: the errors of the user and the missing token are listed.\<close>

lemma AuthResponse_example:
  "AuthResponse strict
     [''user'' \<mapsto> PDict [(''id'', PStr (str ''u1'')), (''email'', PStr (str ''nobody'')),
                           (''name'', PStr (str ''Ann''))]]
   = Inl [(''user'', Within ''email'' (ValueError ''value is not a valid email address'')),
          (''user'', Within ''created_at'' Missing), (''user'', Within ''updated_at'' Missing),
          (''token'', Missing)]"
  by (simp add: AuthResponse_def User_def Let_def field_defs email_validator_def
      simple_address_def)

subsection \<open>Statistics\<close>

text \<open>
  C10. A \<open>HabitStatistics\<close> is constructed from any three ints and any float, whatever
  their sign or size, given an id that is a string and a last date that is \<open>None\<close> or a
  date; the record holds them unchanged.
\<close>

theorem HabitStatistics_unconstrained:
  assumes "m ''habit_id'' = Some (PStr h)"
    and "m ''current_streak'' = Some (PInt c)"
    and "m ''longest_streak'' = Some (PInt l)"
    and "m ''total_completions'' = Some (PInt t)"
    and "m ''completion_rate'' = Some (PFloat r)"
    and "m ''last_completed_date'' = Some (dump_optional PDate d)"
  shows "HabitStatistics lib m =
           Inr \<lparr>habit_id = h, current_streak = c, longest_streak = l, total_completions = t,
                completion_rate = r, last_completed_date = d\<rparr>"
  using assms by (cases d) (simp_all add: HabitStatistics_def Let_def errors_of_def)

text \<open>
The theorem at negative streaks and counts and at a rate of 5.
\<close>

theorem HabitStatistics_unconstrained_witness:
  "HabitStatistics strict
     [''habit_id'' \<mapsto> PStr (str ''h1''), ''current_streak'' \<mapsto> PInt (- 3),
      ''longest_streak'' \<mapsto> PInt (- 10), ''total_completions'' \<mapsto> PInt (- 1),
      ''completion_rate'' \<mapsto> PFloat (Float 5 0), ''last_completed_date'' \<mapsto> PNone]
   = Inr \<lparr>habit_id = str ''h1'', current_streak = - 3, longest_streak = - 10,
          total_completions = - 1, completion_rate = Float 5 0, last_completed_date = None\<rparr>"
  by (rule HabitStatistics_unconstrained) simp_all

end
